theory Spec2Isabelle
  imports Complex_Main "HOL-Library.AList"
begin

section \<open>Touch types\<close>

text \<open>
  The declarations of \<^verbatim>\<open>types/TouchTypes\<close>. A JavaScript \<^verbatim>\<open>number\<close> that holds a
  coordinate, a time or a threshold is a \<^typ>\<open>real\<close> (the arithmetic of the source is
  read over the reals: no rounding, no NaN); a touch identifier is an \<^typ>\<open>int\<close>.
  An array is a mutable object: a field that holds an array holds its address, and the
  contents live in a store of arrays, so that two objects may share one array.
  Field names are those of the source, with a prefix where the name is taken in
  Isabelle or by another record (\<open>x\<close>, \<open>y\<close> and \<open>identifier\<close> of a touch point, \<open>type\<close>
  and \<open>timestamp\<close> of an event). The optional fields \<open>target\<close> and \<open>nativeEvent\<close> of an
  event, which the recognizer never sets, are left out.
\<close>

type_synonym addr = nat

record TouchPoint =
  point_x :: real
  point_y :: real
  timestamp :: real
  pressure :: "real option"
  touch_identifier :: int

record GestureState =
  startTime :: real
  startTouches :: addr
  currentTouches :: addr
  deltaX :: real
  deltaY :: real
  velocityX :: real
  velocityY :: real
  scale :: real
  rotation :: real
  isActive :: bool
  isRecognized :: bool

record GestureConfig =
  minDistance :: real
  maxDistance :: real
  minDuration :: real
  maxDuration :: real
  velocityThreshold :: real
  scaleThreshold :: real
  rotationThreshold :: real

datatype GestureType =
  TAP | DOUBLE_TAP | LONG_PRESS | SWIPE_LEFT | SWIPE_RIGHT | SWIPE_UP | SWIPE_DOWN
  | PAN | PINCH | ROTATE | EDGE_SWIPE | FORCE_TOUCH

record GestureEvent =
  event_type :: GestureType
  state :: GestureState
  event_timestamp :: real

section \<open>Touch utilities\<close>

text \<open>\<^verbatim>\<open>Math.atan2(y, x)\<close>: the angle of the point \<open>(x, y)\<close>, in \<open>(-\<pi>, \<pi>]\<close>, and 0 at the origin.\<close>

definition atan2 :: "real \<Rightarrow> real \<Rightarrow> real" where
  "atan2 y x =
     (if 0 < x then arctan (y / x)
      else if x < 0 then (if 0 \<le> y then arctan (y / x) + pi else arctan (y / x) - pi)
      else if 0 < y then pi / 2
      else if y < 0 then - (pi / 2)
      else 0)"

definition calculateDistance :: "TouchPoint \<Rightarrow> TouchPoint \<Rightarrow> real" where
  "calculateDistance point1 point2 =
     (let dx = point_x point2 - point_x point1;
          dy = point_y point2 - point_y point1
      in sqrt (dx * dx + dy * dy))"

definition calculateAngle :: "TouchPoint \<Rightarrow> TouchPoint \<Rightarrow> real" where
  "calculateAngle point1 point2 =
     (let dx = point_x point2 - point_x point1;
          dy = point_y point2 - point_y point1
      in atan2 dy dx * (180 / pi))"

definition calculateGestureDirection :: "real \<Rightarrow> real \<Rightarrow> string" where
  "calculateGestureDirection dX dY =
     (let absX = \<bar>dX\<bar>; absY = \<bar>dY\<bar>
      in if absX > absY then (if dX > 0 then ''right'' else ''left'')
         else (if dY > 0 then ''down'' else ''up''))"

definition calculateGestureScale :: "TouchPoint list \<Rightarrow> TouchPoint list \<Rightarrow> real" where
  "calculateGestureScale startPoints currentPoints =
     (if length startPoints < 2 \<or> length currentPoints < 2 then 1
      else let startDistance = calculateDistance (startPoints ! 0) (startPoints ! 1);
               currentDistance = calculateDistance (currentPoints ! 0) (currentPoints ! 1)
           in if startDistance > 0 then currentDistance / startDistance else 1)"

definition calculateGestureRotation :: "TouchPoint list \<Rightarrow> TouchPoint list \<Rightarrow> real" where
  "calculateGestureRotation startPoints currentPoints =
     (if length startPoints < 2 \<or> length currentPoints < 2 then 0
      else let startAngle = calculateAngle (startPoints ! 0) (startPoints ! 1);
               currentAngle = calculateAngle (currentPoints ! 0) (currentPoints ! 1)
           in currentAngle - startAngle)"

section \<open>Gesture recognizer\<close>

text \<open>
  The recognizer object: its configuration, the live gesture state (\<^verbatim>\<open>null\<close> is
  \<^term>\<open>None\<close>) and the processing flag. \<open>arrays\<close> is the store of the arrays the recognizer
  has allocated and \<open>nextAddr\<close> the next free address. The readings of the clock
  (\<^verbatim>\<open>Date.now()\<close>) are arguments of the operations that read it. The field
  \<open>gestureCache\<close> of the source, which is only ever cleared, is left out.
\<close>

record GestureRecognizer =
  config :: GestureConfig
  gestureState :: "GestureState option"
  isProcessing :: bool
  arrays :: "addr \<Rightarrow> TouchPoint list"
  nextAddr :: addr

text \<open>
  A call either returns or throws the \<^verbatim>\<open>TypeError\<close> of a property read on
  \<^verbatim>\<open>undefined\<close> or \<^verbatim>\<open>null\<close>.
\<close>

datatype 'a outcome = Returned 'a | TypeError

definition newGestureRecognizer :: "GestureConfig \<Rightarrow> GestureRecognizer" where
  "newGestureRecognizer cfg =
     \<lparr>config = cfg, gestureState = None, isProcessing = False,
      arrays = (\<lambda>_. []), nextAddr = 0\<rparr>"

definition onTouchStart :: "TouchPoint \<Rightarrow> real \<Rightarrow> GestureRecognizer \<Rightarrow> GestureRecognizer" where
  "onTouchStart touch now r =
     (if isProcessing r then r
      else let a = nextAddr r
           in r\<lparr>gestureState := Some
                  \<lparr>startTime = now, startTouches = a, currentTouches = a + 1,
                   deltaX = 0, deltaY = 0, velocityX = 0, velocityY = 0,
                   scale = 1, rotation = 0, isActive = True, isRecognized = False\<rparr>,
                arrays := (arrays r)(a := [touch], a + 1 := [touch]),
                nextAddr := a + 2,
                isProcessing := True\<rparr>)"

text \<open>\<^verbatim>\<open>Array.prototype.findIndex\<close>; \<^term>\<open>None\<close> is the source's \<open>-1\<close>.\<close>

fun findIndex :: "('a \<Rightarrow> bool) \<Rightarrow> 'a list \<Rightarrow> nat option" where
  "findIndex P [] = None"
| "findIndex P (t # ts) = (if P t then Some 0 else map_option Suc (findIndex P ts))"

definition calculateMultiTouchProperties :: "GestureRecognizer \<Rightarrow> GestureRecognizer outcome" where
  "calculateMultiTouchProperties r =
     (case gestureState r of
        None \<Rightarrow> TypeError
      | Some g \<Rightarrow>
          (case arrays r (currentTouches g) of
             touch1 # touch2 # _ \<Rightarrow>
               (case arrays r (startTouches g) of
                  [] \<Rightarrow> TypeError
                | startTouch1 # rest \<Rightarrow>
                    (let startTouch2 = (case rest of [] \<Rightarrow> startTouch1 | s2 # _ \<Rightarrow> s2);
                         currentDistance =
                           sqrt ((point_x touch2 - point_x touch1)\<^sup>2
                               + (point_y touch2 - point_y touch1)\<^sup>2);
                         startDistance =
                           sqrt ((point_x startTouch2 - point_x startTouch1)\<^sup>2
                               + (point_y startTouch2 - point_y startTouch1)\<^sup>2);
                         g1 = (if startDistance > 0
                               then g\<lparr>scale := currentDistance / startDistance\<rparr> else g);
                         currentAngle =
                           atan2 (point_y touch2 - point_y touch1) (point_x touch2 - point_x touch1);
                         startAngle =
                           atan2 (point_y startTouch2 - point_y startTouch1)
                                 (point_x startTouch2 - point_x startTouch1)
                     in Returned
                          (r\<lparr>gestureState :=
                               Some (g1\<lparr>rotation := (currentAngle - startAngle) * (180 / pi)\<rparr>)\<rparr>)))
           | _ \<Rightarrow> Returned r))"

definition onTouchMove ::
  "TouchPoint \<Rightarrow> GestureRecognizer \<Rightarrow> GestureState option outcome \<times> GestureRecognizer" where
  "onTouchMove touch r =
     (case gestureState r of
        None \<Rightarrow> (Returned None, r)
      | Some g \<Rightarrow>
          (if \<not> isProcessing r then (Returned None, r)
           else
            (let cur = arrays r (currentTouches g);
                 cur' = (case findIndex (\<lambda>t. touch_identifier t = touch_identifier touch) cur of
                           Some touchIndex \<Rightarrow> cur[touchIndex := touch]
                         | None \<Rightarrow> cur @ [touch]);
                 r1 = r\<lparr>arrays := (arrays r)(currentTouches g := cur')\<rparr>
             in (case arrays r1 (startTouches g) of
                   [] \<Rightarrow> (TypeError, r1)
                 | startTouch # _ \<Rightarrow>
                    (let g1 = g\<lparr>deltaX := point_x touch - point_x startTouch,
                                 deltaY := point_y touch - point_y startTouch\<rparr>;
                         timeDelta = timestamp touch - timestamp startTouch;
                         g2 = (if timeDelta > 0
                               then g1\<lparr>velocityX := deltaX g1 / timeDelta,
                                       velocityY := deltaY g1 / timeDelta\<rparr>
                               else g1);
                         r2 = r1\<lparr>gestureState := Some g2\<rparr>
                     in (if length (arrays r2 (currentTouches g2)) > 1
                         then (case calculateMultiTouchProperties r2 of
                                 Returned r3 \<Rightarrow> (Returned (gestureState r3), r3)
                               | TypeError \<Rightarrow> (TypeError, r2))
                         else (Returned (gestureState r2), r2)))))))"

definition recognizeSwipeDirection :: "GestureRecognizer \<Rightarrow> GestureType" where
  "recognizeSwipeDirection r =
     (case gestureState r of
        None \<Rightarrow> PAN
      | Some g \<Rightarrow>
          let absX = \<bar>deltaX g\<bar>; absY = \<bar>deltaY g\<bar>
          in if absX > absY then (if deltaX g > 0 then SWIPE_RIGHT else SWIPE_LEFT)
             else (if deltaY g > 0 then SWIPE_DOWN else SWIPE_UP))"

definition recognizeMultiTouchGesture :: "GestureRecognizer \<Rightarrow> GestureType option" where
  "recognizeMultiTouchGesture r =
     (case gestureState r of
        None \<Rightarrow> None
      | Some g \<Rightarrow>
          if \<bar>scale g - 1\<bar> > scaleThreshold (config r) then Some PINCH
          else if \<bar>rotation g\<bar> > rotationThreshold (config r) then Some ROTATE
          else None)"

definition recognizeGesture :: "real \<Rightarrow> GestureRecognizer \<Rightarrow> GestureType option" where
  "recognizeGesture now r =
     (case gestureState r of
        None \<Rightarrow> None
      | Some g \<Rightarrow>
          let duration = now - startTime g;
              distance = sqrt ((deltaX g)\<^sup>2 + (deltaY g)\<^sup>2);
              velocity = sqrt ((velocityX g)\<^sup>2 + (velocityY g)\<^sup>2)
          in if distance < minDistance (config r) \<and> duration < maxDuration (config r)
             then Some TAP
             else if distance < minDistance (config r) \<and> duration > minDuration (config r)
             then Some LONG_PRESS
             else if velocity > velocityThreshold (config r) \<and> distance > minDistance (config r)
             then Some (recognizeSwipeDirection r)
             else if distance > minDistance (config r) \<and> velocity < velocityThreshold (config r)
             then Some PAN
             else if length (arrays r (currentTouches g)) > 1
             then recognizeMultiTouchGesture r
             else None)"

text \<open>
  \<^verbatim>\<open>onTouchEnd\<close>: \<^verbatim>\<open>filter\<close> allocates a new array; the event's state is the copy
  \<^verbatim>\<open>{ ...this.gestureState }\<close>, a new object with the fields of the live state at that
  moment, the addresses of its two arrays among them. \<open>now\<close> is the clock read by
  \<^verbatim>\<open>recognizeGesture\<close>, \<open>stamp\<close> the one read for the event.
\<close>

definition onTouchEnd ::
  "TouchPoint \<Rightarrow> real \<Rightarrow> real \<Rightarrow> GestureRecognizer \<Rightarrow> GestureEvent option \<times> GestureRecognizer" where
  "onTouchEnd touch now stamp r =
     (case gestureState r of
        None \<Rightarrow> (None, r)
      | Some g \<Rightarrow>
          if \<not> isProcessing r then (None, r)
          else
            let a = nextAddr r;
                g1 = g\<lparr>currentTouches := a\<rparr>;
                r1 = r\<lparr>arrays := (arrays r)
                          (a := filter (\<lambda>t. touch_identifier t \<noteq> touch_identifier touch)
                                       (arrays r (currentTouches g))),
                       nextAddr := a + 1,
                       gestureState := Some g1\<rparr>
            in if length (arrays r1 (currentTouches g1)) = 0
               then (case recognizeGesture now r1 of
                       Some gestureType \<Rightarrow>
                         (Some \<lparr>event_type = gestureType, state = g1, event_timestamp = stamp\<rparr>,
                          r1\<lparr>gestureState := Some (g1\<lparr>isRecognized := True, isActive := False\<rparr>),
                             isProcessing := False\<rparr>)
                     | None \<Rightarrow> (None, r1))
               else (None, r1))"

definition updateConfig :: "GestureConfig \<Rightarrow> GestureRecognizer \<Rightarrow> GestureRecognizer" where
  "updateConfig newConfig r = r\<lparr>config := newConfig\<rparr>"

definition reset :: "GestureRecognizer \<Rightarrow> GestureRecognizer" where
  "reset r = r\<lparr>gestureState := None, isProcessing := False\<rparr>"

definition destroy :: "GestureRecognizer \<Rightarrow> GestureRecognizer" where
  "destroy r = reset r"

definition isGestureActive :: "GestureRecognizer \<Rightarrow> bool" where
  "isGestureActive r =
     (isProcessing r \<and> (case gestureState r of None \<Rightarrow> False | Some g \<Rightarrow> isActive g))"

text \<open>A sequence of calls of the public operations, from any client of the recognizer.\<close>

datatype recognizer_call =
  TouchStart TouchPoint real
  | TouchMove TouchPoint
  | TouchEnd TouchPoint real real
  | UpdateConfig GestureConfig
  | Reset
  | Destroy

fun call :: "recognizer_call \<Rightarrow> GestureRecognizer \<Rightarrow> GestureRecognizer" where
  "call (TouchStart touch now) r = onTouchStart touch now r"
| "call (TouchMove touch) r = snd (onTouchMove touch r)"
| "call (TouchEnd touch now stamp) r = snd (onTouchEnd touch now stamp r)"
| "call (UpdateConfig c) r = updateConfig c r"
| "call Reset r = reset r"
| "call Destroy r = destroy r"

fun run :: "GestureRecognizer \<Rightarrow> recognizer_call list \<Rightarrow> GestureRecognizer" where
  "run r [] = r"
| "run r (c # cs) = run (call c r) cs"

text \<open>The gesture events that a sequence of calls returns, in order.\<close>

fun emitted :: "GestureRecognizer \<Rightarrow> recognizer_call list \<Rightarrow> GestureEvent list" where
  "emitted r [] = []"
| "emitted r (TouchEnd touch now stamp # cs) =
     (case fst (onTouchEnd touch now stamp r) of
        Some ev \<Rightarrow> ev # emitted (call (TouchEnd touch now stamp) r) cs
      | None \<Rightarrow> emitted (call (TouchEnd touch now stamp) r) cs)"
| "emitted r (c # cs) = emitted (call c r) cs"

text \<open>The gesture configuration that \<^verbatim>\<open>index.ts\<close> exports as the default.\<close>

definition defaultGestureConfig :: GestureConfig where
  "defaultGestureConfig =
     \<lparr>minDistance = 10, maxDistance = 1000, minDuration = 100, maxDuration = 2000,
      velocityThreshold = 0.3, scaleThreshold = 0.1, rotationThreshold = 15\<rparr>"

section \<open>Performance monitor\<close>

text \<open>
  The counters of a gesture type start at 0 and are only incremented: they are naturals.
  The map from gesture types to counters is a list of pairs in insertion order. Of the
  monitor's fields, the ones that \<^verbatim>\<open>getMetrics\<close> and \<^verbatim>\<open>recordGesture\<close> read are kept.
\<close>

record GestureMetrics =
  count :: nat
  successCount :: nat
  errorCount :: nat
  averageTime :: real
  totalTime :: real

record PerformanceMonitor =
  gestureMetrics :: "(GestureType \<times> GestureMetrics) list"
  monitor_memoryUsage :: real
  monitor_batteryImpact :: real

text \<open>
  \<open>gestureRecognitionTime\<close> is a quotient by the size of the map: with an empty map
  (after \<^verbatim>\<open>destroy\<close>) the source computes \<open>0 / 0\<close>, written \<^term>\<open>None\<close> here.
\<close>

record PerformanceMetrics =
  gestureRecognitionTime :: "real option"
  memoryUsage :: real
  batteryImpact :: real
  errorRate :: real
  successRate :: real

definition allGestureTypes :: "GestureType list" where
  "allGestureTypes =
     [TAP, DOUBLE_TAP, LONG_PRESS, SWIPE_LEFT, SWIPE_RIGHT, SWIPE_UP, SWIPE_DOWN,
      PAN, PINCH, ROTATE, EDGE_SWIPE, FORCE_TOUCH]"

definition initializeGestureMetrics :: "PerformanceMonitor \<Rightarrow> PerformanceMonitor" where
  "initializeGestureMetrics m =
     m\<lparr>gestureMetrics :=
         fold (\<lambda>gestureType gm.
                 AList.update gestureType
                   \<lparr>count = 0, successCount = 0, errorCount = 0, averageTime = 0, totalTime = 0\<rparr>
                   gm)
              allGestureTypes (gestureMetrics m)\<rparr>"

definition newPerformanceMonitor :: PerformanceMonitor where
  "newPerformanceMonitor =
     initializeGestureMetrics
       \<lparr>gestureMetrics = [], monitor_memoryUsage = 0, monitor_batteryImpact = 0\<rparr>"

text \<open>
  \<^verbatim>\<open>recordGesture\<close>; the optional recognition time counts when it is given and is
  not 0 (the source tests its truthiness).
\<close>

definition recordGesture ::
  "GestureType \<Rightarrow> bool \<Rightarrow> real option \<Rightarrow> PerformanceMonitor \<Rightarrow> PerformanceMonitor" where
  "recordGesture gestureType success recognitionTime m =
     (case map_of (gestureMetrics m) gestureType of
        None \<Rightarrow> m
      | Some metrics \<Rightarrow>
          (let m1 = metrics\<lparr>count := count metrics + 1\<rparr>;
               m2 = (if success then m1\<lparr>successCount := successCount m1 + 1\<rparr>
                     else m1\<lparr>errorCount := errorCount m1 + 1\<rparr>);
               m3 = (case recognitionTime of
                       None \<Rightarrow> m2
                     | Some t \<Rightarrow>
                         if t = 0 then m2
                         else m2\<lparr>totalTime := totalTime m2 + t,
                                 averageTime := (totalTime m2 + t) / real (count m2)\<rparr>)
           in m\<lparr>gestureMetrics := AList.update gestureType m3 (gestureMetrics m)\<rparr>))"

definition getMetrics :: "PerformanceMonitor \<Rightarrow> PerformanceMetrics" where
  "getMetrics m =
     (let totalGestures =
            foldl (\<lambda>sum metrics. sum + count metrics) 0 (map snd (gestureMetrics m));
          successfulGestures =
            foldl (\<lambda>sum metrics. sum + successCount metrics) 0 (map snd (gestureMetrics m));
          averageRecognitionTime =
            (if length (gestureMetrics m) = 0 then None
             else Some (foldl (\<lambda>sum metrics. sum + averageTime metrics) 0
                          (map snd (gestureMetrics m))
                        / real (length (gestureMetrics m))))
      in \<lparr>gestureRecognitionTime = averageRecognitionTime,
          memoryUsage = monitor_memoryUsage m,
          batteryImpact = monitor_batteryImpact m,
          errorRate = (if totalGestures > 0
                       then (real totalGestures - real successfulGestures) / real totalGestures
                       else 0),
          successRate = (if totalGestures > 0
                         then real successfulGestures / real totalGestures
                         else 1)\<rparr>)"

section \<open>Performance optimizer: object pool and result cache\<close>

text \<open>
  The configuration after the constructor has merged the caller's partial configuration
  into the defaults. The pool size and the batch size are naturals (the source counts
  with them); the cache limit is a real, since the tuning multiplies it by 0.8 and 1.2.
\<close>

record OptimizationConfig =
  enableGestureCaching :: bool
  enableMemoryPooling :: bool
  enableLazyLoading :: bool
  enableBatchProcessing :: bool
  maxCacheSize :: real
  memoryPoolSize :: nat
  batchSize :: nat
  optimizationThreshold :: real

record 'a CacheEntry =
  key :: string
  data :: 'a
  entry_timestamp :: real
  accessCount :: nat

text \<open>
  An object handed to the pool: the five fields that \<^verbatim>\<open>reset\<close> clears, and whether
  the object has the \<^verbatim>\<open>reset\<close> method of \<^verbatim>\<open>createPooledObject\<close> at all (the argument
  is typed \<^verbatim>\<open>any\<close>, and the source calls \<^verbatim>\<open>reset\<close> only when the object has it).
\<close>

record PooledObject =
  pool_x :: real
  pool_y :: real
  pool_timestamp :: real
  pool_identifier :: real
  pool_pressure :: real
  has_reset :: bool

text \<open>
  The cache is a \<^verbatim>\<open>Map\<close>: a list of pairs with distinct keys, in insertion order
  (\<^const>\<open>AList.update\<close> is \<^verbatim>\<open>Map.set\<close>, \<^const>\<open>AList.delete\<close> is \<^verbatim>\<open>Map.delete\<close>). The pool
  is an array used as a stack, its top at the end.
\<close>

record 'a PerformanceOptimizer =
  opt_config :: OptimizationConfig
  gestureCache :: "(string \<times> 'a CacheEntry) list"
  memoryPool :: "PooledObject list"

definition createPooledObject :: PooledObject where
  "createPooledObject =
     \<lparr>pool_x = 0, pool_y = 0, pool_timestamp = 0, pool_identifier = 0, pool_pressure = 0,
      has_reset = True\<rparr>"

definition resetPooledObject :: "PooledObject \<Rightarrow> PooledObject" where
  "resetPooledObject obj =
     obj\<lparr>pool_x := 0, pool_y := 0, pool_timestamp := 0, pool_identifier := 0, pool_pressure := 0\<rparr>"

definition initializeMemoryPool :: "'a PerformanceOptimizer \<Rightarrow> 'a PerformanceOptimizer" where
  "initializeMemoryPool opt =
     (if enableMemoryPooling (opt_config opt)
      then opt\<lparr>memoryPool :=
                 memoryPool opt @ replicate (memoryPoolSize (opt_config opt)) createPooledObject\<rparr>
      else opt)"

definition newPerformanceOptimizer :: "OptimizationConfig \<Rightarrow> 'a PerformanceOptimizer" where
  "newPerformanceOptimizer cfg =
     initializeMemoryPool \<lparr>opt_config = cfg, gestureCache = [], memoryPool = []\<rparr>"

definition getPooledObject :: "'a PerformanceOptimizer \<Rightarrow> PooledObject \<times> 'a PerformanceOptimizer" where
  "getPooledObject opt =
     (if enableMemoryPooling (opt_config opt) \<and> length (memoryPool opt) > 0
      then (last (memoryPool opt), opt\<lparr>memoryPool := butlast (memoryPool opt)\<rparr>)
      else (createPooledObject, opt))"

definition returnPooledObject :: "PooledObject \<Rightarrow> 'a PerformanceOptimizer \<Rightarrow> 'a PerformanceOptimizer" where
  "returnPooledObject obj opt =
     (if enableMemoryPooling (opt_config opt)
         \<and> length (memoryPool opt) < memoryPoolSize (opt_config opt)
      then opt\<lparr>memoryPool :=
                 memoryPool opt @ [if has_reset obj then resetPooledObject obj else obj]\<rparr>
      else opt)"

datatype pool_op = GetPooled | ReturnPooled PooledObject

fun pool_call :: "pool_op \<Rightarrow> 'a PerformanceOptimizer \<Rightarrow> 'a PerformanceOptimizer" where
  "pool_call GetPooled opt = snd (getPooledObject opt)"
| "pool_call (ReturnPooled obj) opt = returnPooledObject obj opt"

fun pool_run :: "'a PerformanceOptimizer \<Rightarrow> pool_op list \<Rightarrow> 'a PerformanceOptimizer" where
  "pool_run opt [] = opt"
| "pool_run opt (c # cs) = pool_run (pool_call c opt) cs"

text \<open>
  The loop of \<^verbatim>\<open>evictOldestCacheEntry\<close> over the entries in insertion order, with
  the pair of \<^verbatim>\<open>oldestEntry\<close> and \<^verbatim>\<open>oldestKey\<close> as its state.
\<close>

fun oldestScan ::
  "'a CacheEntry option \<times> string option \<Rightarrow> (string \<times> 'a CacheEntry) list
   \<Rightarrow> 'a CacheEntry option \<times> string option" where
  "oldestScan acc [] = acc"
| "oldestScan (oldestEntry, oldestKey) ((k, entry) # es) =
     oldestScan
       (case oldestEntry of
          None \<Rightarrow> (Some entry, Some k)
        | Some oldest \<Rightarrow>
            if entry_timestamp entry < entry_timestamp oldest then (Some entry, Some k)
            else (oldestEntry, oldestKey))
       es"

text \<open>The final test \<^verbatim>\<open>if (oldestKey)\<close> fails for \<^verbatim>\<open>null\<close> and for the empty string.\<close>

definition evictOldestCacheEntry :: "'a PerformanceOptimizer \<Rightarrow> 'a PerformanceOptimizer" where
  "evictOldestCacheEntry opt =
     (case snd (oldestScan (None, None) (gestureCache opt)) of
        None \<Rightarrow> opt
      | Some oldestKey \<Rightarrow>
          if oldestKey = [] then opt
          else opt\<lparr>gestureCache := AList.delete oldestKey (gestureCache opt)\<rparr>)"

definition cacheGestureResult ::
  "string \<Rightarrow> 'a \<Rightarrow> real \<Rightarrow> 'a PerformanceOptimizer \<Rightarrow> 'a PerformanceOptimizer" where
  "cacheGestureResult k result now opt =
     (if \<not> enableGestureCaching (opt_config opt) then opt
      else
        let opt1 = (if real (length (gestureCache opt)) \<ge> maxCacheSize (opt_config opt)
                    then evictOldestCacheEntry opt else opt)
        in opt1\<lparr>gestureCache :=
                  AList.update k
                    \<lparr>key = k, data = result, entry_timestamp = now, accessCount = 0\<rparr>
                    (gestureCache opt1)\<rparr>)"

definition getCachedGestureResult ::
  "string \<Rightarrow> 'a PerformanceOptimizer \<Rightarrow> 'a option \<times> 'a PerformanceOptimizer" where
  "getCachedGestureResult k opt =
     (if \<not> enableGestureCaching (opt_config opt) then (None, opt)
      else case map_of (gestureCache opt) k of
             Some entry \<Rightarrow>
               (Some (data entry),
                opt\<lparr>gestureCache :=
                      AList.update k (entry\<lparr>accessCount := accessCount entry + 1\<rparr>)
                        (gestureCache opt)\<rparr>)
           | None \<Rightarrow> (None, opt))"

section \<open>Touch control manager: dispatch of a gesture event\<close>

record TouchTarget =
  target_id :: string
  target_x :: real
  target_y :: real
  width :: real
  height :: real
  minSize :: real
  accessibilityLabel :: "string option"
  accessibilityHint :: "string option"
  accessibilityRole :: "string option"










section \<open>Notions used in the statements\<close>

text \<open>The update-or-append step of \<^verbatim>\<open>onTouchMove\<close> on the array of current touches.\<close>

definition putTouch :: "TouchPoint \<Rightarrow> TouchPoint list \<Rightarrow> TouchPoint list" where
  "putTouch touch cur =
     (case findIndex (\<lambda>t. touch_identifier t = touch_identifier touch) cur of
        Some touchIndex \<Rightarrow> cur[touchIndex := touch]
      | None \<Rightarrow> cur @ [touch])"

text \<open>
  What holds of the recognizer after every sequence of calls: the two arrays of the live
  state are allocated and are not the same array, the start array has one entry, the
  scale is 1, the identifiers of the current touches are distinct, and a state that is
  being processed is active and not yet recognized.
\<close>

definition recognizer_inv :: "GestureRecognizer \<Rightarrow> bool" where
  "recognizer_inv r =
     (case gestureState r of
        None \<Rightarrow> True
      | Some g \<Rightarrow>
          startTouches g < nextAddr r \<and> currentTouches g < nextAddr r \<and>
          startTouches g \<noteq> currentTouches g \<and>
          length (arrays r (startTouches g)) = 1 \<and>
          scale g = 1 \<and>
          distinct (map touch_identifier (arrays r (currentTouches g))) \<and>
          (if isProcessing r then isActive g \<and> \<not> isRecognized g else True))"

text \<open>
  An array address that the recognizer no longer writes to: it is allocated and it is
  not the array of current touches of a state being processed.
\<close>

definition settled :: "addr \<Rightarrow> GestureRecognizer \<Rightarrow> bool" where
  "settled a r =
     (a < nextAddr r \<and>
      (case gestureState r of
         None \<Rightarrow> True
       | Some g \<Rightarrow> if isProcessing r then currentTouches g \<noteq> a else True))"







section \<open>Direction of a gesture\<close>

text \<open>
  C8. For every pair \<open>(dx, dy)\<close> the direction is horizontal (right if \<open>dx > 0\<close>, else left)
  exactly when \<open>|dx|\<close> is strictly greater than \<open>|dy|\<close>; in every other case, ties
  \<open>|dx| = |dy|\<close> included, it is vertical (down if \<open>dy > 0\<close>, else up). The recognizer's
  swipe classification follows the same rule on the deltas of its gesture state.
\<close>

theorem direction_strict_dominance:
  "(\<bar>dx\<bar> > \<bar>dy\<bar> \<longrightarrow>
      calculateGestureDirection dx dy = (if dx > 0 then ''right'' else ''left'')) \<and>
   (\<not> \<bar>dx\<bar> > \<bar>dy\<bar> \<longrightarrow>
      calculateGestureDirection dx dy = (if dy > 0 then ''down'' else ''up'')) \<and>
   (\<bar>dx\<bar> = \<bar>dy\<bar> \<longrightarrow> calculateGestureDirection dx dy \<in> {''down'', ''up''}) \<and>
   (calculateGestureDirection dx dy \<in> {''right'', ''left''} \<longleftrightarrow> \<bar>dx\<bar> > \<bar>dy\<bar>) \<and>
   (gestureState r = Some g \<and> deltaX g = dx \<and> deltaY g = dy \<longrightarrow>
      recognizeSwipeDirection r =
        (if \<bar>dx\<bar> > \<bar>dy\<bar> then (if dx > 0 then SWIPE_RIGHT else SWIPE_LEFT)
         else (if dy > 0 then SWIPE_DOWN else SWIPE_UP)) \<and>
      (\<bar>dx\<bar> = \<bar>dy\<bar> \<longrightarrow> recognizeSwipeDirection r \<in> {SWIPE_DOWN, SWIPE_UP}))"
  by (auto simp: calculateGestureDirection_def recognizeSwipeDirection_def Let_def)


theorem direction_strict_dominance_witness:
  "\<bar>5::real\<bar> = \<bar>- 5\<bar> \<and> calculateGestureDirection 5 (- 5) = ''up'' \<and>
   \<bar>7::real\<bar> > \<bar>- 3\<bar> \<and> calculateGestureDirection 7 (- 3) = ''right'' \<and>
   recognizeSwipeDirection
     ((newGestureRecognizer defaultGestureConfig)
        \<lparr>gestureState := Some
           \<lparr>startTime = 0, startTouches = 0, currentTouches = 1, deltaX = 5, deltaY = - 5,
            velocityX = 1, velocityY = - 1, scale = 1, rotation = 0, isActive = True,
            isRecognized = False\<rparr>\<rparr>) = SWIPE_UP"
  using direction_strict_dominance [where dx = 5 and dy = "- 5"
      and r = "(newGestureRecognizer defaultGestureConfig)
        \<lparr>gestureState := Some
           \<lparr>startTime = 0, startTouches = 0, currentTouches = 1, deltaX = 5, deltaY = - 5,
            velocityX = 1, velocityY = - 1, scale = 1, rotation = 0, isActive = True,
            isRecognized = False\<rparr>\<rparr>"
      and g = "\<lparr>startTime = 0, startTouches = 0, currentTouches = 1, deltaX = 5, deltaY = - 5,
            velocityX = 1, velocityY = - 1, scale = 1, rotation = 0, isActive = True,
            isRecognized = False\<rparr>"]
    direction_strict_dominance [where dx = 7 and dy = "- 3"]
  by simp

section \<open>Rates of the performance monitor\<close>

lemma foldl_add_sum:
  "foldl (\<lambda>sum metrics. sum + f metrics) a ms = a + sum_list (map f ms)"
  by (induction ms arbitrary: a) (simp_all add: add.assoc)

text \<open>
  C9. The aggregate snapshot computes the error rate as (total - successes) / total over
  the counters of the gesture types; when the total is 0 the error rate is 0 and the
  success rate is 1.
\<close>

theorem getMetrics_rates:
  "(sum_list (map (count \<circ> snd) (gestureMetrics m)) \<noteq> 0 \<longrightarrow>
      errorRate (getMetrics m) =
        (real (sum_list (map (count \<circ> snd) (gestureMetrics m)))
           - real (sum_list (map (successCount \<circ> snd) (gestureMetrics m))))
        / real (sum_list (map (count \<circ> snd) (gestureMetrics m)))) \<and>
   (sum_list (map (count \<circ> snd) (gestureMetrics m)) = 0 \<longrightarrow>
      errorRate (getMetrics m) = 0 \<and> successRate (getMetrics m) = 1)"
  by (simp add: getMetrics_def Let_def foldl_add_sum [where a = "0::nat"] comp_def
      del: sum_list_eq_0_iff)

theorem getMetrics_rates_witness:
  "sum_list (map (count \<circ> snd)
      (gestureMetrics (recordGesture PAN True None (recordGesture TAP False None
         (recordGesture TAP True (Some 12) newPerformanceMonitor))))) = 3 \<and>
   errorRate (getMetrics (recordGesture PAN True None (recordGesture TAP False None
         (recordGesture TAP True (Some 12) newPerformanceMonitor)))) = 1 / 3 \<and>
   sum_list (map (count \<circ> snd) (gestureMetrics newPerformanceMonitor)) = 0 \<and>
   errorRate (getMetrics newPerformanceMonitor) = 0 \<and>
   successRate (getMetrics newPerformanceMonitor) = 1"
  using getMetrics_rates [of "recordGesture PAN True None (recordGesture TAP False None
         (recordGesture TAP True (Some 12) newPerformanceMonitor))"]
    getMetrics_rates [of newPerformanceMonitor]
  by (simp add: newPerformanceMonitor_def initializeGestureMetrics_def allGestureTypes_def
      recordGesture_def Let_def)


section \<open>What every sequence of calls preserves\<close>

lemma findIndex_Some: "findIndex P xs = Some i \<Longrightarrow> i < length xs \<and> P (xs ! i)"
proof (induction xs arbitrary: i)
  case Nil then show ?case by simp
next
  case (Cons t ts)
  then show ?case by (cases "P t") (auto split: if_splits)
qed

lemma findIndex_None: "findIndex P xs = None \<Longrightarrow> \<forall>t \<in> set xs. \<not> P t"
  by (induction xs) (auto split: if_splits)

lemma map_update_same_key:
  assumes "i < length xs" and "f (xs ! i) = f t"
  shows "map f (xs[i := t]) = map f xs"
  using assms by (simp add: map_update list_update_same_conv)

lemma putTouch_ids:
  assumes "distinct (map touch_identifier cur)"
  shows "distinct (map touch_identifier (putTouch touch cur))"
proof (cases "findIndex (\<lambda>t. touch_identifier t = touch_identifier touch) cur")
  case None
  from findIndex_None [OF None] have "touch_identifier touch \<notin> touch_identifier ` set cur"
    by force
  with assms None show ?thesis by (simp add: putTouch_def)
next
  case (Some i)
  from findIndex_Some [OF Some] have "i < length cur"
    and "touch_identifier (cur ! i) = touch_identifier touch" by simp_all
  then have "map touch_identifier (cur[i := touch]) = map touch_identifier cur"
    by (rule map_update_same_key)
  with assms Some show ?thesis by (simp add: putTouch_def)
qed

lemma inv_new: "recognizer_inv (newGestureRecognizer cfg)"
  by (simp add: recognizer_inv_def newGestureRecognizer_def)

lemma inv_onTouchStart: "recognizer_inv r \<Longrightarrow> recognizer_inv (onTouchStart touch now r)"
  by (simp add: recognizer_inv_def onTouchStart_def Let_def)

lemma inv_onTouchEnd: "recognizer_inv r \<Longrightarrow> recognizer_inv (snd (onTouchEnd touch now stamp r))"
  by (auto simp: recognizer_inv_def onTouchEnd_def Let_def distinct_map_filter
      split: option.splits if_splits)

lemma onTouchMove_tracking:
  assumes g: "gestureState r = Some g" and p: "isProcessing r"
    and s: "arrays r (startTouches g) = [s]" and ne: "startTouches g \<noteq> currentTouches g"
  shows "\<exists>g'. onTouchMove touch r =
           (Returned (Some g'),
            r\<lparr>arrays := (arrays r)(currentTouches g := putTouch touch (arrays r (currentTouches g))),
              gestureState := Some g'\<rparr>) \<and>
          startTime g' = startTime g \<and> startTouches g' = startTouches g \<and>
          currentTouches g' = currentTouches g \<and> scale g' = scale g \<and>
          isActive g' = isActive g \<and> isRecognized g' = isRecognized g \<and>
          deltaX g' = point_x touch - point_x s \<and> deltaY g' = point_y touch - point_y s"
  using g p s ne
  by (cases "putTouch touch (arrays r (currentTouches g))")
     (auto simp: onTouchMove_def calculateMultiTouchProperties_def Let_def putTouch_def
        split: list.splits option.splits)

lemma inv_onTouchMove: "recognizer_inv r \<Longrightarrow> recognizer_inv (snd (onTouchMove touch r))"
proof (cases "gestureState r")
  case None
  assume "recognizer_inv r"
  with None show ?thesis by (simp add: onTouchMove_def)
next
  case (Some g)
  assume inv: "recognizer_inv r"
  show ?thesis
  proof (cases "isProcessing r")
    case False
    with Some inv show ?thesis by (simp add: onTouchMove_def)
  next
    case True
    from inv Some have len: "length (arrays r (startTouches g)) = 1"
      and ne: "startTouches g \<noteq> currentTouches g"
      by (simp_all add: recognizer_inv_def)
    from len obtain s where s: "arrays r (startTouches g) = [s]"
      by (cases "arrays r (startTouches g)") auto
    from onTouchMove_tracking [OF Some True s ne, of touch]
    obtain g' where "onTouchMove touch r =
           (Returned (Some g'),
            r\<lparr>arrays := (arrays r)(currentTouches g := putTouch touch (arrays r (currentTouches g))),
              gestureState := Some g'\<rparr>)"
       "startTouches g' = startTouches g" "currentTouches g' = currentTouches g"
       "scale g' = scale g" "isActive g' = isActive g" "isRecognized g' = isRecognized g"
      by blast
    with inv Some True s ne show ?thesis
      by (simp add: recognizer_inv_def putTouch_ids)
  qed
qed

lemma inv_call: "recognizer_inv r \<Longrightarrow> recognizer_inv (call c r)"
  by (cases c)
     (simp_all add: inv_onTouchStart inv_onTouchMove inv_onTouchEnd,
      simp_all add: recognizer_inv_def updateConfig_def reset_def destroy_def split: option.splits)

lemma inv_run: "recognizer_inv r \<Longrightarrow> recognizer_inv (run r cs)"
  by (induction cs arbitrary: r) (simp_all add: inv_call)

lemma inv_reachable: "recognizer_inv (run (newGestureRecognizer cfg) cs)"
  by (rule inv_run) (rule inv_new)

lemma calculateMultiTouchProperties_frame:
  "calculateMultiTouchProperties r = Returned r' \<Longrightarrow>
   arrays r' = arrays r \<and> nextAddr r' = nextAddr r \<and> isProcessing r' = isProcessing r \<and>
   config r' = config r \<and>
   map_option currentTouches (gestureState r') = map_option currentTouches (gestureState r) \<and>
   map_option startTouches (gestureState r') = map_option startTouches (gestureState r) \<and>
   map_option startTime (gestureState r') = map_option startTime (gestureState r)"
  by (auto simp: calculateMultiTouchProperties_def Let_def split: option.splits list.splits if_splits)

lemma onTouchMove_frame:
  assumes g: "gestureState r = Some g" and p: "isProcessing r"
  shows "arrays (snd (onTouchMove touch r)) =
           (arrays r)(currentTouches g := putTouch touch (arrays r (currentTouches g))) \<and>
         nextAddr (snd (onTouchMove touch r)) = nextAddr r \<and>
         isProcessing (snd (onTouchMove touch r)) \<and>
         config (snd (onTouchMove touch r)) = config r \<and>
         map_option currentTouches (gestureState (snd (onTouchMove touch r))) = Some (currentTouches g) \<and>
         map_option startTouches (gestureState (snd (onTouchMove touch r))) = Some (startTouches g) \<and>
         map_option startTime (gestureState (snd (onTouchMove touch r))) = Some (startTime g)"
proof (cases "((arrays r)(currentTouches g := putTouch touch (arrays r (currentTouches g))))
                (startTouches g)")
  case Nil
  with g p show ?thesis
    by (simp add: onTouchMove_def Let_def putTouch_def del: fun_upd_apply)
next
  case (Cons s ss)
  with g p show ?thesis
    by (auto simp: onTouchMove_def Let_def putTouch_def simp del: fun_upd_apply
        split: outcome.split dest!: calculateMultiTouchProperties_frame)
qed

lemma onTouchMove_idle:
  "gestureState r = None \<or> \<not> isProcessing r \<Longrightarrow> snd (onTouchMove touch r) = r"
  by (auto simp: onTouchMove_def split: option.splits)

lemma findIndex_None_iff: "findIndex P xs = None \<longleftrightarrow> (\<forall>t \<in> set xs. \<not> P t)"
  by (induction xs) auto

lemma update_at_index:
  assumes "distinct (map f xs)" and "findIndex (\<lambda>x. f x = k) xs = Some i"
  shows "xs[i := t] = map (\<lambda>x. if f x = k then t else x) xs"
  using assms
proof (induction xs arbitrary: i)
  case Nil
  then show ?case by simp
next
  case (Cons x xs)
  show ?case
  proof (cases "f x = k")
    case True
    with Cons.prems have i: "i = 0" and "k \<notin> f ` set xs" by auto
    then have "map (\<lambda>x. if f x = k then t else x) xs = xs"
      by (induction xs) auto
    with True i show ?thesis by simp
  next
    case False
    with Cons.prems obtain j where j: "findIndex (\<lambda>x. f x = k) xs = Some j" "i = Suc j"
      by auto
    from Cons.prems(1) have "distinct (map f xs)" by simp
    from Cons.IH [OF this j(1)] False j(2) show ?thesis by simp
  qed
qed

lemma putTouch_explicit:
  assumes "distinct (map touch_identifier cur)"
  shows "putTouch touch cur =
           (if touch_identifier touch \<in> touch_identifier ` set cur
            then map (\<lambda>t. if touch_identifier t = touch_identifier touch then touch else t) cur
            else cur @ [touch])"
proof (cases "findIndex (\<lambda>t. touch_identifier t = touch_identifier touch) cur")
  case None
  then have "touch_identifier touch \<notin> touch_identifier ` set cur"
    by (auto simp: findIndex_None_iff)
  with None show ?thesis by (simp add: putTouch_def)
next
  case (Some i)
  from findIndex_Some [OF Some] have "touch_identifier touch \<in> touch_identifier ` set cur"
    by (metis imageI nth_mem)
  with Some update_at_index [OF assms Some, of touch] show ?thesis by (simp add: putTouch_def)
qed

lemma onTouchEnd_frame:
  assumes "gestureState r = Some g" and "isProcessing r"
  shows "arrays (snd (onTouchEnd touch now stamp r)) =
           (arrays r)(nextAddr r := filter (\<lambda>t. touch_identifier t \<noteq> touch_identifier touch)
                                     (arrays r (currentTouches g))) \<and>
         map_option currentTouches (gestureState (snd (onTouchEnd touch now stamp r))) =
           Some (nextAddr r)"
  using assms by (simp add: onTouchEnd_def Let_def split: option.splits)

lemmas recognizer_defs =
  newGestureRecognizer_def defaultGestureConfig_def onTouchStart_def onTouchMove_def
  onTouchEnd_def calculateMultiTouchProperties_def recognizeGesture_def
  recognizeSwipeDirection_def recognizeMultiTouchGesture_def atan2_def Let_def
  reset_def destroy_def updateConfig_def

lemma sqrt_100: "sqrt 100 = 10"
  by (rule real_sqrt_unique) simp_all

lemma sqrt_10000: "sqrt 10000 = 100"
  by (rule real_sqrt_unique) simp_all

lemma sqrt_14400: "sqrt 14400 = 120"
  by (rule real_sqrt_unique) simp_all

text \<open>
  On the states that a sequence of calls reaches, \<^verbatim>\<open>onTouchMove\<close> does not throw: the
  branches of the model that stand for a \<^verbatim>\<open>TypeError\<close> are never taken.
\<close>

lemma no_TypeError_reachable:
  "fst (onTouchMove touch (run (newGestureRecognizer cfg) cs)) \<noteq> TypeError"
proof -
  let ?r = "run (newGestureRecognizer cfg) cs"
  have inv: "recognizer_inv ?r" by (rule inv_reachable)
  show ?thesis
  proof (cases "gestureState ?r")
    case None
    then show ?thesis by (simp add: onTouchMove_def)
  next
    case (Some g)
    show ?thesis
    proof (cases "isProcessing ?r")
      case False
      with Some show ?thesis by (simp add: onTouchMove_def)
    next
      case True
      from inv Some have len: "length (arrays ?r (startTouches g)) = 1"
        and ne: "startTouches g \<noteq> currentTouches g"
        by (simp_all add: recognizer_inv_def)
      from len obtain s where s: "arrays ?r (startTouches g) = [s]"
        by (cases "arrays ?r (startTouches g)") auto
      from onTouchMove_tracking [OF Some True s ne, of touch]
      show ?thesis by auto
    qed
  qed
qed

section \<open>Distinct identifiers of the current touches\<close>

text \<open>
  C4. After every sequence of calls of the recognizer, with arbitrary touch identifiers,
  no two entries of the current touches of the gesture state have the same identifier:
  while a gesture is processed, \<^verbatim>\<open>onTouchMove\<close> replaces the entry with the identifier
  of the touch in place, or appends the touch when there is none, and \<^verbatim>\<open>onTouchEnd\<close>
  makes the array without every entry that has the identifier of the ended touch the
  array of current touches.
\<close>

theorem currentTouches_distinct_identifiers:
  assumes "gestureState (run (newGestureRecognizer cfg) cs) = Some g"
  shows "distinct (map touch_identifier (arrays (run (newGestureRecognizer cfg) cs) (currentTouches g))) \<and>
    (isProcessing (run (newGestureRecognizer cfg) cs) \<longrightarrow>
       arrays (snd (onTouchMove touch (run (newGestureRecognizer cfg) cs))) (currentTouches g) =
         (if touch_identifier touch
               \<in> touch_identifier ` set (arrays (run (newGestureRecognizer cfg) cs) (currentTouches g))
          then map (\<lambda>t. if touch_identifier t = touch_identifier touch then touch else t)
                 (arrays (run (newGestureRecognizer cfg) cs) (currentTouches g))
          else arrays (run (newGestureRecognizer cfg) cs) (currentTouches g) @ [touch]) \<and>
       map_option currentTouches (gestureState (snd (onTouchMove touch (run (newGestureRecognizer cfg) cs))))
         = Some (currentTouches g) \<and>
       arrays (snd (onTouchEnd touch now stamp (run (newGestureRecognizer cfg) cs))) (nextAddr (run (newGestureRecognizer cfg) cs)) =
         filter (\<lambda>t. touch_identifier t \<noteq> touch_identifier touch)
           (arrays (run (newGestureRecognizer cfg) cs) (currentTouches g)) \<and>
       map_option currentTouches
           (gestureState (snd (onTouchEnd touch now stamp (run (newGestureRecognizer cfg) cs))))
         = Some (nextAddr (run (newGestureRecognizer cfg) cs)))"
proof -
  let ?r = "run (newGestureRecognizer cfg) cs"
  from inv_reachable [of cfg cs] assms
  have d: "distinct (map touch_identifier (arrays ?r (currentTouches g)))"
    by (simp add: recognizer_inv_def)
  show ?thesis
  proof (cases "isProcessing ?r")
    case False
    with d show ?thesis by simp
  next
    case True
    from onTouchMove_frame [OF assms True, of touch] onTouchEnd_frame [OF assms True, of touch now stamp]
      putTouch_explicit [OF d, of touch] d
    show ?thesis by simp
  qed
qed

theorem currentTouches_distinct_identifiers_witness:
  "gestureState (run (newGestureRecognizer defaultGestureConfig)
      [TouchStart \<lparr>point_x = 0, point_y = 0, timestamp = 0, pressure = None, touch_identifier = 0\<rparr> 0,
       TouchMove \<lparr>point_x = 0, point_y = 10, timestamp = 100, pressure = None, touch_identifier = 1\<rparr>,
       TouchMove \<lparr>point_x = 0, point_y = 10, timestamp = 100, pressure = None, touch_identifier = 1\<rparr>])
     = Some \<lparr>startTime = 0, startTouches = 0, currentTouches = 1, deltaX = 0, deltaY = 10,
             velocityX = 0, velocityY = 1 / 10, scale = 1, rotation = 90, isActive = True,
             isRecognized = False\<rparr> \<and>
   isProcessing (run (newGestureRecognizer defaultGestureConfig)
      [TouchStart \<lparr>point_x = 0, point_y = 0, timestamp = 0, pressure = None, touch_identifier = 0\<rparr> 0,
       TouchMove \<lparr>point_x = 0, point_y = 10, timestamp = 100, pressure = None, touch_identifier = 1\<rparr>,
       TouchMove \<lparr>point_x = 0, point_y = 10, timestamp = 100, pressure = None, touch_identifier = 1\<rparr>]) \<and>
   distinct (map touch_identifier
     (arrays (run (newGestureRecognizer defaultGestureConfig)
      [TouchStart \<lparr>point_x = 0, point_y = 0, timestamp = 0, pressure = None, touch_identifier = 0\<rparr> 0,
       TouchMove \<lparr>point_x = 0, point_y = 10, timestamp = 100, pressure = None, touch_identifier = 1\<rparr>,
       TouchMove \<lparr>point_x = 0, point_y = 10, timestamp = 100, pressure = None, touch_identifier = 1\<rparr>]) 1))"
  using currentTouches_distinct_identifiers [where cfg = defaultGestureConfig
      and cs = "[TouchStart \<lparr>point_x = 0, point_y = 0, timestamp = 0, pressure = None, touch_identifier = 0\<rparr> 0,
       TouchMove \<lparr>point_x = 0, point_y = 10, timestamp = 100, pressure = None, touch_identifier = 1\<rparr>,
       TouchMove \<lparr>point_x = 0, point_y = 10, timestamp = 100, pressure = None, touch_identifier = 1\<rparr>]"
      and g = "\<lparr>startTime = 0, startTouches = 0, currentTouches = 1, deltaX = 0, deltaY = 10,
             velocityX = 0, velocityY = 1 / 10, scale = 1, rotation = 90, isActive = True,
             isRecognized = False\<rparr>"]
  by (simp add: recognizer_defs)

section \<open>Multi-touch classification\<close>

text \<open>
  C1. A touch at the origin, a second touch ten pixels below it, then the release of
  both, under the default configuration: two touches were concurrent, the distance is
  exactly \<open>minDistance\<close> so that none of the rules for tap, long press, swipe and pan
  matches, the scale is 1 and the rotation is 90 degrees, above the rotation threshold.
  The call of \<^verbatim>\<open>onTouchEnd\<close> that removes the last touch returns no event, although
  the multi-touch rule, asked on the final state, answers \<open>ROTATE\<close>: the classifier
  tests for more than one current touch when the array has just become empty.
\<close>

theorem multi_touch_release_unclassified:
  "gestureState (run (newGestureRecognizer defaultGestureConfig)
      [TouchStart \<lparr>point_x = 0, point_y = 0, timestamp = 0, pressure = None, touch_identifier = 0\<rparr> 0,
       TouchMove \<lparr>point_x = 0, point_y = 10, timestamp = 100, pressure = None, touch_identifier = 1\<rparr>])
     = Some \<lparr>startTime = 0, startTouches = 0, currentTouches = 1, deltaX = 0, deltaY = 10,
             velocityX = 0, velocityY = 1 / 10, scale = 1, rotation = 90, isActive = True,
             isRecognized = False\<rparr> \<and>
   arrays (run (newGestureRecognizer defaultGestureConfig)
      [TouchStart \<lparr>point_x = 0, point_y = 0, timestamp = 0, pressure = None, touch_identifier = 0\<rparr> 0,
       TouchMove \<lparr>point_x = 0, point_y = 10, timestamp = 100, pressure = None, touch_identifier = 1\<rparr>]) 1
     = [\<lparr>point_x = 0, point_y = 0, timestamp = 0, pressure = None, touch_identifier = 0\<rparr>,
        \<lparr>point_x = 0, point_y = 10, timestamp = 100, pressure = None, touch_identifier = 1\<rparr>] \<and>
   fst (onTouchEnd \<lparr>point_x = 0, point_y = 0, timestamp = 150, pressure = None, touch_identifier = 0\<rparr> 150 150
        (run (newGestureRecognizer defaultGestureConfig)
      [TouchStart \<lparr>point_x = 0, point_y = 0, timestamp = 0, pressure = None, touch_identifier = 0\<rparr> 0,
       TouchMove \<lparr>point_x = 0, point_y = 10, timestamp = 100, pressure = None, touch_identifier = 1\<rparr>]))
     = None \<and>
   fst (onTouchEnd \<lparr>point_x = 0, point_y = 10, timestamp = 200, pressure = None, touch_identifier = 1\<rparr> 200 200
        (run (newGestureRecognizer defaultGestureConfig)
      [TouchStart \<lparr>point_x = 0, point_y = 0, timestamp = 0, pressure = None, touch_identifier = 0\<rparr> 0,
       TouchMove \<lparr>point_x = 0, point_y = 10, timestamp = 100, pressure = None, touch_identifier = 1\<rparr>,
       TouchEnd \<lparr>point_x = 0, point_y = 0, timestamp = 150, pressure = None, touch_identifier = 0\<rparr> 150 150]))
     = None \<and>
   recognizeMultiTouchGesture (run (newGestureRecognizer defaultGestureConfig)
      [TouchStart \<lparr>point_x = 0, point_y = 0, timestamp = 0, pressure = None, touch_identifier = 0\<rparr> 0,
       TouchMove \<lparr>point_x = 0, point_y = 10, timestamp = 100, pressure = None, touch_identifier = 1\<rparr>,
       TouchEnd \<lparr>point_x = 0, point_y = 0, timestamp = 150, pressure = None, touch_identifier = 0\<rparr> 150 150,
       TouchEnd \<lparr>point_x = 0, point_y = 10, timestamp = 200, pressure = None, touch_identifier = 1\<rparr> 200 200])
     = Some ROTATE"
  by (simp add: recognizer_defs sqrt_100)

text \<open>
  More generally no call of \<^verbatim>\<open>onTouchEnd\<close>, on any state, returns a pinch or a rotation.
\<close>

lemma onTouchEnd_never_multi_touch:
  "fst (onTouchEnd touch now stamp r) = Some ev \<Longrightarrow>
   event_type ev \<noteq> PINCH \<and> event_type ev \<noteq> ROTATE"
  by (auto simp: onTouchEnd_def recognizeGesture_def recognizeSwipeDirection_def Let_def
      split: option.splits if_splits)

section \<open>Scale and rotation while moving\<close>

text \<open>
  C2. The sequence of the test "should calculate scale for pinch gesture": two touches
  start 100 pixels apart and move to 120 pixels apart. The second start is ignored, the
  start array keeps the first touch only, the start distance of the fallback pair is 0
  and the scale stays 1, where the quotient of the two distances is \<open>6 / 5\<close>.
\<close>

theorem pinch_scale_not_computed:
  "gestureState (run (newGestureRecognizer defaultGestureConfig)
      [TouchStart \<lparr>point_x = 100, point_y = 100, timestamp = 0, pressure = Some 0.5, touch_identifier = 1\<rparr> 0,
       TouchStart \<lparr>point_x = 200, point_y = 100, timestamp = 0, pressure = Some 0.5, touch_identifier = 2\<rparr> 0,
       TouchMove \<lparr>point_x = 90, point_y = 100, timestamp = 100, pressure = Some 0.5, touch_identifier = 1\<rparr>,
       TouchMove \<lparr>point_x = 210, point_y = 100, timestamp = 100, pressure = Some 0.5, touch_identifier = 2\<rparr>])
     = Some \<lparr>startTime = 0, startTouches = 0, currentTouches = 1, deltaX = 110, deltaY = 0,
             velocityX = 11 / 10, velocityY = 0, scale = 1, rotation = 0, isActive = True,
             isRecognized = False\<rparr> \<and>
   arrays (run (newGestureRecognizer defaultGestureConfig)
      [TouchStart \<lparr>point_x = 100, point_y = 100, timestamp = 0, pressure = Some 0.5, touch_identifier = 1\<rparr> 0,
       TouchStart \<lparr>point_x = 200, point_y = 100, timestamp = 0, pressure = Some 0.5, touch_identifier = 2\<rparr> 0,
       TouchMove \<lparr>point_x = 90, point_y = 100, timestamp = 100, pressure = Some 0.5, touch_identifier = 1\<rparr>,
       TouchMove \<lparr>point_x = 210, point_y = 100, timestamp = 100, pressure = Some 0.5, touch_identifier = 2\<rparr>]) 0
     = [\<lparr>point_x = 100, point_y = 100, timestamp = 0, pressure = Some 0.5, touch_identifier = 1\<rparr>] \<and>
   arrays (run (newGestureRecognizer defaultGestureConfig)
      [TouchStart \<lparr>point_x = 100, point_y = 100, timestamp = 0, pressure = Some 0.5, touch_identifier = 1\<rparr> 0,
       TouchStart \<lparr>point_x = 200, point_y = 100, timestamp = 0, pressure = Some 0.5, touch_identifier = 2\<rparr> 0,
       TouchMove \<lparr>point_x = 90, point_y = 100, timestamp = 100, pressure = Some 0.5, touch_identifier = 1\<rparr>,
       TouchMove \<lparr>point_x = 210, point_y = 100, timestamp = 100, pressure = Some 0.5, touch_identifier = 2\<rparr>]) 1
     = [\<lparr>point_x = 90, point_y = 100, timestamp = 100, pressure = Some 0.5, touch_identifier = 1\<rparr>,
        \<lparr>point_x = 210, point_y = 100, timestamp = 100, pressure = Some 0.5, touch_identifier = 2\<rparr>] \<and>
   calculateGestureScale
     [\<lparr>point_x = 100, point_y = 100, timestamp = 0, pressure = Some 0.5, touch_identifier = 1\<rparr>,
      \<lparr>point_x = 200, point_y = 100, timestamp = 0, pressure = Some 0.5, touch_identifier = 2\<rparr>]
     [\<lparr>point_x = 90, point_y = 100, timestamp = 100, pressure = Some 0.5, touch_identifier = 1\<rparr>,
      \<lparr>point_x = 210, point_y = 100, timestamp = 100, pressure = Some 0.5, touch_identifier = 2\<rparr>]
     = 6 / 5"
  by (simp add: recognizer_defs calculateGestureScale_def calculateDistance_def sqrt_10000 sqrt_14400)

text \<open>
  In every state that a sequence of calls reaches the start array has one entry and
  the scale is 1.
\<close>

lemma scale_stays_one:
  "gestureState (run (newGestureRecognizer cfg) cs) = Some g \<Longrightarrow>
   scale g = 1 \<and> length (arrays (run (newGestureRecognizer cfg) cs) (startTouches g)) = 1"
  using inv_reachable [of cfg cs] by (simp add: recognizer_inv_def)

section \<open>The snapshot of a gesture event\<close>

text \<open>
  A tap under the default configuration: the state that the event carries is not
  marked recognized and is still marked active.
\<close>

theorem event_snapshot_flags_counterexample:
  "fst (onTouchEnd \<lparr>point_x = 100, point_y = 100, timestamp = 50, pressure = Some 0.5, touch_identifier = 1\<rparr> 50 50
      (onTouchStart \<lparr>point_x = 100, point_y = 100, timestamp = 0, pressure = Some 0.5, touch_identifier = 1\<rparr> 0
         (newGestureRecognizer defaultGestureConfig)))
   = Some \<lparr>event_type = TAP,
           state = \<lparr>startTime = 0, startTouches = 0, currentTouches = 2, deltaX = 0, deltaY = 0,
                    velocityX = 0, velocityY = 0, scale = 1, rotation = 0, isActive = True,
                    isRecognized = False\<rparr>,
           event_timestamp = 50\<rparr>"
  by (simp add: recognizer_defs)

lemma settled_onTouchStart:
  "settled a r \<Longrightarrow> settled a (onTouchStart touch now r) \<and> arrays (onTouchStart touch now r) a = arrays r a"
  by (auto simp: settled_def onTouchStart_def Let_def split: option.splits if_splits)

lemma settled_onTouchEnd:
  "settled a r \<Longrightarrow> settled a (snd (onTouchEnd touch now stamp r)) \<and>
     arrays (snd (onTouchEnd touch now stamp r)) a = arrays r a"
  by (auto simp: settled_def onTouchEnd_def Let_def split: option.splits if_splits)

lemma settled_onTouchMove:
  assumes "settled a r"
  shows "settled a (snd (onTouchMove touch r)) \<and> arrays (snd (onTouchMove touch r)) a = arrays r a"
proof (cases "gestureState r = None \<or> \<not> isProcessing r")
  case True
  with assms show ?thesis by (simp add: onTouchMove_idle)
next
  case False
  then obtain g where g: "gestureState r = Some g" and p: "isProcessing r" by auto
  from onTouchMove_frame [OF g p, of touch] assms g p show ?thesis
    by (auto simp: settled_def split: option.splits)
qed

lemma settled_call: "settled a r \<Longrightarrow> settled a (call c r) \<and> arrays (call c r) a = arrays r a"
  by (cases c)
     (simp_all add: settled_onTouchStart settled_onTouchMove settled_onTouchEnd,
      simp_all add: settled_def updateConfig_def reset_def destroy_def split: option.splits)

lemma settled_run: "settled a r \<Longrightarrow> arrays (run r cs) a = arrays r a"
proof (induction cs arbitrary: r)
  case Nil
  show ?case by simp
next
  case (Cons c cs)
  from settled_call [OF Cons.prems, of c] Cons.IH [of "call c r"] show ?case by simp
qed

lemma onTouchEnd_event:
  assumes "onTouchEnd touch now stamp r = (Some ev, r')"
  shows "\<exists>g. gestureState r = Some g \<and> isProcessing r \<and>
           state ev = g\<lparr>currentTouches := nextAddr r\<rparr> \<and>
           event_timestamp ev = stamp \<and>
           r' = r\<lparr>arrays := (arrays r)(nextAddr r := []),
                  nextAddr := nextAddr r + 1,
                  gestureState := Some (g\<lparr>currentTouches := nextAddr r,
                                          isRecognized := True, isActive := False\<rparr>),
                  isProcessing := False\<rparr>"
  using assms
  by (auto simp: onTouchEnd_def Let_def split: option.splits if_splits)

text \<open>
  C3, amended. Whenever \<^verbatim>\<open>onTouchEnd\<close> classifies a gesture, after any sequence of
  calls, the event carries the copy of the gesture state taken before the flags are
  set: in the copy \<open>isActive\<close> is true and \<open>isRecognized\<close> is false; the live state of
  the recognizer is that copy with \<open>isRecognized\<close> true and \<open>isActive\<close> false; the
  recognizer is idle; and no later sequence of calls changes the two arrays of the copy.
\<close>

theorem gesture_event_snapshot:
  assumes "onTouchEnd touch now stamp (run (newGestureRecognizer cfg) cs0) = (Some ev, r')"
  shows "isActive (state ev) \<and> \<not> isRecognized (state ev) \<and>
         gestureState r' = Some ((state ev)\<lparr>isRecognized := True, isActive := False\<rparr>) \<and>
         \<not> isProcessing r' \<and> \<not> isGestureActive r' \<and>
         (\<forall>cs. arrays (run r' cs) (startTouches (state ev)) = arrays r' (startTouches (state ev)) \<and>
               arrays (run r' cs) (currentTouches (state ev)) = arrays r' (currentTouches (state ev)))"
proof -
  let ?r = "run (newGestureRecognizer cfg) cs0"
  from onTouchEnd_event [OF assms] obtain g where
    g: "gestureState ?r = Some g" and p: "isProcessing ?r"
    and ev: "state ev = g\<lparr>currentTouches := nextAddr ?r\<rparr>"
    and r': "r' = ?r\<lparr>arrays := (arrays ?r)(nextAddr ?r := []),
                  nextAddr := nextAddr ?r + 1,
                  gestureState := Some (g\<lparr>currentTouches := nextAddr ?r,
                                          isRecognized := True, isActive := False\<rparr>),
                  isProcessing := False\<rparr>"
    by blast
  have inv: "recognizer_inv ?r" by (rule inv_reachable)
  with g p have flags: "isActive g" "\<not> isRecognized g" and st: "startTouches g < nextAddr ?r"
    by (simp_all add: recognizer_inv_def)
  have s1: "settled (startTouches (state ev)) r'"
    using st by (simp add: settled_def ev r')
  have s2: "settled (currentTouches (state ev)) r'"
    by (simp add: settled_def ev r')
  from flags ev r' settled_run [OF s1] settled_run [OF s2] show ?thesis
    by (simp add: isGestureActive_def)
qed

theorem gesture_event_snapshot_witness:
  "fst (onTouchEnd \<lparr>point_x = 100, point_y = 100, timestamp = 50, pressure = Some 0.5, touch_identifier = 1\<rparr> 50 50
      (run (newGestureRecognizer defaultGestureConfig)
         [TouchStart \<lparr>point_x = 100, point_y = 100, timestamp = 0, pressure = Some 0.5, touch_identifier = 1\<rparr> 0]))
   = Some \<lparr>event_type = TAP,
           state = \<lparr>startTime = 0, startTouches = 0, currentTouches = 2, deltaX = 0, deltaY = 0,
                    velocityX = 0, velocityY = 0, scale = 1, rotation = 0, isActive = True,
                    isRecognized = False\<rparr>,
           event_timestamp = 50\<rparr> \<and>
   \<not> isProcessing (snd (onTouchEnd \<lparr>point_x = 100, point_y = 100, timestamp = 50, pressure = Some 0.5, touch_identifier = 1\<rparr> 50 50
      (run (newGestureRecognizer defaultGestureConfig)
         [TouchStart \<lparr>point_x = 100, point_y = 100, timestamp = 0, pressure = Some 0.5, touch_identifier = 1\<rparr> 0]))) \<and>
   arrays (run (snd (onTouchEnd \<lparr>point_x = 100, point_y = 100, timestamp = 50, pressure = Some 0.5, touch_identifier = 1\<rparr> 50 50
      (run (newGestureRecognizer defaultGestureConfig)
         [TouchStart \<lparr>point_x = 100, point_y = 100, timestamp = 0, pressure = Some 0.5, touch_identifier = 1\<rparr> 0])))
       [TouchStart \<lparr>point_x = 5, point_y = 5, timestamp = 60, pressure = None, touch_identifier = 2\<rparr> 60,
        TouchMove \<lparr>point_x = 9, point_y = 9, timestamp = 70, pressure = None, touch_identifier = 3\<rparr>]) 0
   = [\<lparr>point_x = 100, point_y = 100, timestamp = 0, pressure = Some 0.5, touch_identifier = 1\<rparr>] \<and>
   arrays (run (snd (onTouchEnd \<lparr>point_x = 100, point_y = 100, timestamp = 50, pressure = Some 0.5, touch_identifier = 1\<rparr> 50 50
      (run (newGestureRecognizer defaultGestureConfig)
         [TouchStart \<lparr>point_x = 100, point_y = 100, timestamp = 0, pressure = Some 0.5, touch_identifier = 1\<rparr> 0])))
       [TouchStart \<lparr>point_x = 5, point_y = 5, timestamp = 60, pressure = None, touch_identifier = 2\<rparr> 60,
        TouchMove \<lparr>point_x = 9, point_y = 9, timestamp = 70, pressure = None, touch_identifier = 3\<rparr>]) 2
   = []"
proof -
  let ?r = "run (newGestureRecognizer defaultGestureConfig)
         [TouchStart \<lparr>point_x = 100, point_y = 100, timestamp = 0, pressure = Some 0.5, touch_identifier = 1\<rparr> 0]"
  let ?e = "\<lparr>point_x = 100, point_y = 100, timestamp = 50, pressure = Some 0.5, touch_identifier = 1\<rparr>"
  let ?ev = "\<lparr>event_type = TAP,
           state = \<lparr>startTime = 0, startTouches = 0, currentTouches = 2, deltaX = 0, deltaY = 0,
                    velocityX = 0, velocityY = 0, scale = 1, rotation = 0, isActive = True,
                    isRecognized = False\<rparr>,
           event_timestamp = 50\<rparr>"
  let ?r' = "snd (onTouchEnd ?e 50 50 ?r)"
  let ?cs = "[TouchStart \<lparr>point_x = 5, point_y = 5, timestamp = 60, pressure = None, touch_identifier = 2\<rparr> 60,
        TouchMove \<lparr>point_x = 9, point_y = 9, timestamp = 70, pressure = None, touch_identifier = 3\<rparr>]"
  have f: "fst (onTouchEnd ?e 50 50 ?r) = Some ?ev"
    by (simp add: recognizer_defs)
  then have ev: "onTouchEnd ?e 50 50 ?r = (Some ?ev, ?r')"
    by (simp only: prod_eq_iff fst_conv snd_conv simp_thms)
  have a0: "arrays ?r' 0 = [\<lparr>point_x = 100, point_y = 100, timestamp = 0, pressure = Some 0.5, touch_identifier = 1\<rparr>]"
    and a2: "arrays ?r' 2 = []"
    by (simp_all add: recognizer_defs)
  from gesture_event_snapshot [OF ev] have p: "\<not> isProcessing ?r'"
    and s0: "arrays (run ?r' ?cs) (startTouches (state ?ev)) = arrays ?r' (startTouches (state ?ev))"
    and s2: "arrays (run ?r' ?cs) (currentTouches (state ?ev)) = arrays ?r' (currentTouches (state ?ev))"
    by blast+
  have sel: "startTouches (state ?ev) = 0" "currentTouches (state ?ev) = 2" by simp_all
  from s0 a0 have "arrays (run ?r' ?cs) 0 = [\<lparr>point_x = 100, point_y = 100, timestamp = 0, pressure = Some 0.5, touch_identifier = 1\<rparr>]"
    by (simp only: sel)
  moreover from s2 a2 have "arrays (run ?r' ?cs) 2 = []"
    by (simp only: sel)
  ultimately show ?thesis using f p by blast
qed

section \<open>A release that is not classified\<close>

text \<open>
  A touch that moves by exactly \<open>minDistance\<close> and is released matches no rule and
  leaves the recognizer processing with no current touch. A later touch that moves and
  is released is classified as a tap against the old start, the recognizer becomes idle,
  and the next touch start creates a new gesture state: no \<^verbatim>\<open>reset\<close> or
  \<^verbatim>\<open>destroy\<close> was called.
\<close>

theorem stuck_recognizer_released_counterexample:
  "fst (onTouchEnd \<lparr>point_x = 110, point_y = 100, timestamp = 100, pressure = None, touch_identifier = 1\<rparr> 150 150
        (run (newGestureRecognizer defaultGestureConfig)
           [TouchStart \<lparr>point_x = 100, point_y = 100, timestamp = 0, pressure = None, touch_identifier = 1\<rparr> 0,
            TouchMove \<lparr>point_x = 110, point_y = 100, timestamp = 100, pressure = None, touch_identifier = 1\<rparr>]))
     = None \<and>
   gestureState (run (newGestureRecognizer defaultGestureConfig)
           [TouchStart \<lparr>point_x = 100, point_y = 100, timestamp = 0, pressure = None, touch_identifier = 1\<rparr> 0,
            TouchMove \<lparr>point_x = 110, point_y = 100, timestamp = 100, pressure = None, touch_identifier = 1\<rparr>,
            TouchEnd \<lparr>point_x = 110, point_y = 100, timestamp = 100, pressure = None, touch_identifier = 1\<rparr> 150 150])
     = Some \<lparr>startTime = 0, startTouches = 0, currentTouches = 2, deltaX = 10, deltaY = 0,
             velocityX = 1 / 10, velocityY = 0, scale = 1, rotation = 0, isActive = True,
             isRecognized = False\<rparr> \<and>
   arrays (run (newGestureRecognizer defaultGestureConfig)
           [TouchStart \<lparr>point_x = 100, point_y = 100, timestamp = 0, pressure = None, touch_identifier = 1\<rparr> 0,
            TouchMove \<lparr>point_x = 110, point_y = 100, timestamp = 100, pressure = None, touch_identifier = 1\<rparr>,
            TouchEnd \<lparr>point_x = 110, point_y = 100, timestamp = 100, pressure = None, touch_identifier = 1\<rparr> 150 150]) 2
     = [] \<and>
   gestureState (run (newGestureRecognizer defaultGestureConfig)
           [TouchStart \<lparr>point_x = 100, point_y = 100, timestamp = 0, pressure = None, touch_identifier = 1\<rparr> 0,
            TouchMove \<lparr>point_x = 110, point_y = 100, timestamp = 100, pressure = None, touch_identifier = 1\<rparr>,
            TouchEnd \<lparr>point_x = 110, point_y = 100, timestamp = 100, pressure = None, touch_identifier = 1\<rparr> 150 150,
            TouchStart \<lparr>point_x = 50, point_y = 50, timestamp = 200, pressure = None, touch_identifier = 2\<rparr> 200,
            TouchMove \<lparr>point_x = 100, point_y = 100, timestamp = 300, pressure = None, touch_identifier = 2\<rparr>,
            TouchEnd \<lparr>point_x = 100, point_y = 100, timestamp = 300, pressure = None, touch_identifier = 2\<rparr> 400 400,
            TouchStart \<lparr>point_x = 10, point_y = 10, timestamp = 500, pressure = None, touch_identifier = 3\<rparr> 500])
     = Some \<lparr>startTime = 500, startTouches = 4, currentTouches = 5, deltaX = 0, deltaY = 0,
             velocityX = 0, velocityY = 0, scale = 1, rotation = 0, isActive = True,
             isRecognized = False\<rparr>"
  by (simp add: recognizer_defs sqrt_100)

lemma emitted_Cons: "emitted r (c # cs) = emitted r [c] @ emitted (call c r) cs"
  by (cases c) (simp_all split: option.splits)

lemma onTouchEnd_quiet:
  assumes "gestureState r = Some g" and "isProcessing r"
    and "fst (onTouchEnd touch now stamp r) = None"
  shows "snd (onTouchEnd touch now stamp r) =
           r\<lparr>arrays := (arrays r)
                  (nextAddr r := filter (\<lambda>t. touch_identifier t \<noteq> touch_identifier touch)
                                   (arrays r (currentTouches g))),
             nextAddr := nextAddr r + 1,
             gestureState := Some (g\<lparr>currentTouches := nextAddr r\<rparr>)\<rparr>"
proof (cases "filter (\<lambda>t. touch_identifier t \<noteq> touch_identifier touch)
                (arrays r (currentTouches g)) = []")
  case False
  with assms(1,2) show ?thesis by (simp add: onTouchEnd_def Let_def)
next
  case True
  show ?thesis
  proof (cases "recognizeGesture now
                  (r\<lparr>arrays := (arrays r)(nextAddr r := []), nextAddr := nextAddr r + 1,
                     gestureState := Some (g\<lparr>currentTouches := nextAddr r\<rparr>)\<rparr>)")
    case None
    with True assms(1,2) show ?thesis by (simp add: onTouchEnd_def Let_def)
  next
    case (Some gestureType)
    with True assms have False by (simp add: onTouchEnd_def Let_def)
    then show ?thesis ..
  qed
qed

lemma tracking_call:
  assumes g: "gestureState r = Some g" and p: "isProcessing r"
    and c: "c \<noteq> Reset" "c \<noteq> Destroy" and q: "emitted r [c] = []"
  shows "isProcessing (call c r) \<and>
         map_option startTime (gestureState (call c r)) = Some (startTime g) \<and>
         map_option startTouches (gestureState (call c r)) = Some (startTouches g)"
proof (cases c)
  case (TouchStart t n)
  with g p show ?thesis by (simp add: onTouchStart_def)
next
  case (TouchMove t)
  with onTouchMove_frame [OF g p, of t] show ?thesis by simp
next
  case (TouchEnd t n s)
  with q have "fst (onTouchEnd t n s r) = None" by (simp split: option.splits)
  from onTouchEnd_quiet [OF g p this] g p TouchEnd show ?thesis by simp
next
  case (UpdateConfig cfg)
  with g p show ?thesis by (simp add: updateConfig_def)
qed (use c in simp_all)

lemma tracking_run:
  assumes "gestureState r = Some g" and "isProcessing r"
    and "Reset \<notin> set cs" and "Destroy \<notin> set cs" and "emitted r cs = []"
  shows "isProcessing (run r cs) \<and>
         map_option startTime (gestureState (run r cs)) = Some (startTime g) \<and>
         map_option startTouches (gestureState (run r cs)) = Some (startTouches g)"
  using assms
proof (induction cs arbitrary: r g)
  case Nil
  then show ?case by simp
next
  case (Cons c cs)
  from Cons.prems have c: "c \<noteq> Reset" "c \<noteq> Destroy" by auto
  from Cons.prems(5) have q: "emitted r [c] = []" and q': "emitted (call c r) cs = []"
    by (simp_all add: emitted_Cons [of r c cs])
  from tracking_call [OF Cons.prems(1,2) c q]
  obtain g' where g': "gestureState (call c r) = Some g'" "isProcessing (call c r)"
    "startTime g' = startTime g" "startTouches g' = startTouches g"
    by auto
  from Cons.IH [OF g'(1,2) _ _ q'] Cons.prems(3,4) g'(3,4) show ?case by simp
qed

text \<open>
  C10, amended. If \<^verbatim>\<open>onTouchEnd\<close> returns no event while a gesture is being
  processed, the recognizer stays in its processing state: every following
  \<^verbatim>\<open>onTouchStart\<close> is ignored, and through every sequence of calls without
  \<^verbatim>\<open>reset\<close> or \<^verbatim>\<open>destroy\<close> in which no \<^verbatim>\<open>onTouchEnd\<close> returns an event, the
  recognizer stays processing the same gesture state (same start time, same start array).
\<close>

theorem unclassified_release_keeps_processing:
  assumes "gestureState r = Some g" and "isProcessing r"
    and "onTouchEnd touch now stamp r = (None, r')"
  shows "isProcessing r' \<and> (\<forall>t n. onTouchStart t n r' = r') \<and>
         (\<forall>cs. Reset \<notin> set cs \<and> Destroy \<notin> set cs \<and> emitted r' cs = [] \<longrightarrow>
            isProcessing (run r' cs) \<and>
            map_option startTime (gestureState (run r' cs)) = Some (startTime g) \<and>
            map_option startTouches (gestureState (run r' cs)) = Some (startTouches g))"
proof -
  from assms(3) have "fst (onTouchEnd touch now stamp r) = None"
    and r': "r' = snd (onTouchEnd touch now stamp r)" by simp_all
  from onTouchEnd_quiet [OF assms(1,2) this(1)] r'
  have g': "gestureState r' = Some (g\<lparr>currentTouches := nextAddr r\<rparr>)" and p': "isProcessing r'"
    using assms(2) by simp_all
  from p' have "\<forall>t n. onTouchStart t n r' = r'" by (simp add: onTouchStart_def)
  moreover have "\<forall>cs. Reset \<notin> set cs \<and> Destroy \<notin> set cs \<and> emitted r' cs = [] \<longrightarrow>
            isProcessing (run r' cs) \<and>
            map_option startTime (gestureState (run r' cs)) = Some (startTime g) \<and>
            map_option startTouches (gestureState (run r' cs)) = Some (startTouches g)"
    using tracking_run [OF g' p'] by simp
  ultimately show ?thesis using p' by blast
qed

theorem unclassified_release_keeps_processing_witness:
  "gestureState (run (newGestureRecognizer defaultGestureConfig)
           [TouchStart \<lparr>point_x = 100, point_y = 100, timestamp = 0, pressure = None, touch_identifier = 1\<rparr> 0,
            TouchMove \<lparr>point_x = 110, point_y = 100, timestamp = 100, pressure = None, touch_identifier = 1\<rparr>])
     = Some \<lparr>startTime = 0, startTouches = 0, currentTouches = 1, deltaX = 10, deltaY = 0,
             velocityX = 1 / 10, velocityY = 0, scale = 1, rotation = 0, isActive = True,
             isRecognized = False\<rparr> \<and>
   isProcessing (run (newGestureRecognizer defaultGestureConfig)
           [TouchStart \<lparr>point_x = 100, point_y = 100, timestamp = 0, pressure = None, touch_identifier = 1\<rparr> 0,
            TouchMove \<lparr>point_x = 110, point_y = 100, timestamp = 100, pressure = None, touch_identifier = 1\<rparr>]) \<and>
   fst (onTouchEnd \<lparr>point_x = 110, point_y = 100, timestamp = 100, pressure = None, touch_identifier = 1\<rparr> 150 150
        (run (newGestureRecognizer defaultGestureConfig)
           [TouchStart \<lparr>point_x = 100, point_y = 100, timestamp = 0, pressure = None, touch_identifier = 1\<rparr> 0,
            TouchMove \<lparr>point_x = 110, point_y = 100, timestamp = 100, pressure = None, touch_identifier = 1\<rparr>]))
     = None \<and>
   isProcessing (snd (onTouchEnd \<lparr>point_x = 110, point_y = 100, timestamp = 100, pressure = None, touch_identifier = 1\<rparr> 150 150
        (run (newGestureRecognizer defaultGestureConfig)
           [TouchStart \<lparr>point_x = 100, point_y = 100, timestamp = 0, pressure = None, touch_identifier = 1\<rparr> 0,
            TouchMove \<lparr>point_x = 110, point_y = 100, timestamp = 100, pressure = None, touch_identifier = 1\<rparr>]))) \<and>
   map_option startTime (gestureState (run
      (snd (onTouchEnd \<lparr>point_x = 110, point_y = 100, timestamp = 100, pressure = None, touch_identifier = 1\<rparr> 150 150
        (run (newGestureRecognizer defaultGestureConfig)
           [TouchStart \<lparr>point_x = 100, point_y = 100, timestamp = 0, pressure = None, touch_identifier = 1\<rparr> 0,
            TouchMove \<lparr>point_x = 110, point_y = 100, timestamp = 100, pressure = None, touch_identifier = 1\<rparr>])))
      [TouchStart \<lparr>point_x = 50, point_y = 50, timestamp = 200, pressure = None, touch_identifier = 2\<rparr> 200,
       TouchStart \<lparr>point_x = 60, point_y = 60, timestamp = 300, pressure = None, touch_identifier = 3\<rparr> 300]))
     = Some 0"
proof -
  let ?r = "run (newGestureRecognizer defaultGestureConfig)
           [TouchStart \<lparr>point_x = 100, point_y = 100, timestamp = 0, pressure = None, touch_identifier = 1\<rparr> 0,
            TouchMove \<lparr>point_x = 110, point_y = 100, timestamp = 100, pressure = None, touch_identifier = 1\<rparr>]"
  let ?g = "\<lparr>startTime = 0, startTouches = 0, currentTouches = 1, deltaX = 10, deltaY = 0,
             velocityX = 1 / 10, velocityY = 0, scale = 1, rotation = 0, isActive = True,
             isRecognized = False\<rparr>"
  let ?e = "\<lparr>point_x = 110, point_y = 100, timestamp = 100, pressure = None, touch_identifier = 1\<rparr>"
  let ?r' = "snd (onTouchEnd ?e 150 150 ?r)"
  let ?cs = "[TouchStart \<lparr>point_x = 50, point_y = 50, timestamp = 200, pressure = None, touch_identifier = 2\<rparr> 200,
       TouchStart \<lparr>point_x = 60, point_y = 60, timestamp = 300, pressure = None, touch_identifier = 3\<rparr> 300]"
  have g: "gestureState ?r = Some ?g" and p: "isProcessing ?r"
    by (simp_all add: recognizer_defs)
  have f: "fst (onTouchEnd ?e 150 150 ?r) = None"
    by (simp add: recognizer_defs sqrt_100)
  then have e: "onTouchEnd ?e 150 150 ?r = (None, ?r')"
    by (simp only: prod_eq_iff fst_conv snd_conv simp_thms)
  have cs: "Reset \<notin> set ?cs \<and> Destroy \<notin> set ?cs \<and> emitted ?r' ?cs = []"
    by simp
  from unclassified_release_keeps_processing [OF g p e] cs
  have "isProcessing ?r'"
    and "map_option startTime (gestureState (run ?r' ?cs)) = Some (startTime ?g)"
    by blast+
  with g p f show ?thesis by (simp only: GestureState.simps simp_thms)
qed

section \<open>The object pool\<close>

lemma pool_new: "length (memoryPool (newPerformanceOptimizer cfg)) \<le> memoryPoolSize cfg"
  and config_new: "opt_config (newPerformanceOptimizer cfg) = cfg"
  by (simp_all add: newPerformanceOptimizer_def initializeMemoryPool_def)

lemma pool_call_bound:
  "length (memoryPool opt) \<le> memoryPoolSize (opt_config opt) \<Longrightarrow>
   length (memoryPool (pool_call c opt)) \<le> memoryPoolSize (opt_config opt) \<and>
   opt_config (pool_call c opt) = opt_config opt"
  by (cases c) (auto simp: getPooledObject_def returnPooledObject_def)

lemma pool_run_bound:
  "length (memoryPool opt) \<le> memoryPoolSize (opt_config opt) \<Longrightarrow>
   length (memoryPool (pool_run opt cs)) \<le> memoryPoolSize (opt_config opt) \<and>
   opt_config (pool_run opt cs) = opt_config opt"
proof (induction cs arbitrary: opt)
  case Nil
  then show ?case by simp
next
  case (Cons c cs)
  from pool_call_bound [OF Cons.prems, of c] Cons.IH [of "pool_call c opt"]
  show ?case by simp
qed

lemma pool_reachable:
  "length (memoryPool (pool_run (newPerformanceOptimizer cfg :: 'a PerformanceOptimizer) cs))
     \<le> memoryPoolSize cfg"
proof -
  let ?opt = "newPerformanceOptimizer cfg :: 'a PerformanceOptimizer"
  have "length (memoryPool ?opt) \<le> memoryPoolSize (opt_config ?opt)"
    by (simp add: pool_new config_new)
  from pool_run_bound [OF this, of cs] show ?thesis by (simp add: config_new)
qed

text \<open>
  With pooling disabled the pool of a new optimizer is empty, under its capacity of
  100, and a released object is not pushed back.
\<close>

theorem pool_release_disabled_counterexample:
  "length (memoryPool (newPerformanceOptimizer
      \<lparr>enableGestureCaching = True, enableMemoryPooling = False, enableLazyLoading = True,
       enableBatchProcessing = True, maxCacheSize = 1000, memoryPoolSize = 100, batchSize = 10,
       optimizationThreshold = 0.8\<rparr>)) = 0 \<and>
   memoryPool (returnPooledObject
      \<lparr>pool_x = 3, pool_y = 4, pool_timestamp = 5, pool_identifier = 1, pool_pressure = 0.5,
       has_reset = True\<rparr>
      (newPerformanceOptimizer
        \<lparr>enableGestureCaching = True, enableMemoryPooling = False, enableLazyLoading = True,
         enableBatchProcessing = True, maxCacheSize = 1000, memoryPoolSize = 100, batchSize = 10,
         optimizationThreshold = 0.8\<rparr>)) = []"
  by (simp add: newPerformanceOptimizer_def initializeMemoryPool_def returnPooledObject_def)

text \<open>
  C6, amended. For every sequence of \<^verbatim>\<open>getPooledObject\<close> and \<^verbatim>\<open>returnPooledObject\<close>
  calls on a new optimizer the size of the pool never exceeds the configured capacity.
  A release while the pool is at capacity, and every release while pooling is disabled,
  leaves the optimizer unchanged; a release under capacity with pooling enabled pushes
  the object, after resetting its five fields when the object has a \<^verbatim>\<open>reset\<close> method.
\<close>

theorem pool_bounded:
  "length (memoryPool (pool_run (newPerformanceOptimizer cfg) cs)) \<le> memoryPoolSize cfg \<and>
   (length (memoryPool opt) \<ge> memoryPoolSize (opt_config opt) \<longrightarrow>
      returnPooledObject obj opt = opt) \<and>
   (\<not> enableMemoryPooling (opt_config opt) \<longrightarrow> returnPooledObject obj opt = opt) \<and>
   (enableMemoryPooling (opt_config opt) \<and>
    length (memoryPool opt) < memoryPoolSize (opt_config opt) \<longrightarrow>
      memoryPool (returnPooledObject obj opt) =
        memoryPool opt @ [if has_reset obj then resetPooledObject obj else obj] \<and>
      (has_reset obj \<longrightarrow>
         last (memoryPool (returnPooledObject obj opt)) =
           \<lparr>pool_x = 0, pool_y = 0, pool_timestamp = 0, pool_identifier = 0, pool_pressure = 0,
            has_reset = True\<rparr>))"
  by (auto simp: pool_reachable returnPooledObject_def resetPooledObject_def)

theorem pool_bounded_witness:
  "length (memoryPool (pool_run
      (newPerformanceOptimizer
        \<lparr>enableGestureCaching = True, enableMemoryPooling = True, enableLazyLoading = True,
         enableBatchProcessing = True, maxCacheSize = 1000, memoryPoolSize = 2, batchSize = 10,
         optimizationThreshold = 0.8\<rparr>)
      [ReturnPooled \<lparr>pool_x = 3, pool_y = 4, pool_timestamp = 5, pool_identifier = 1,
                     pool_pressure = 0.5, has_reset = True\<rparr>,
       GetPooled,
       ReturnPooled \<lparr>pool_x = 3, pool_y = 4, pool_timestamp = 5, pool_identifier = 1,
                     pool_pressure = 0.5, has_reset = True\<rparr>,
       ReturnPooled \<lparr>pool_x = 6, pool_y = 7, pool_timestamp = 8, pool_identifier = 2,
                     pool_pressure = 0.5, has_reset = True\<rparr>])) \<le> 2 \<and>
   returnPooledObject
      \<lparr>pool_x = 3, pool_y = 4, pool_timestamp = 5, pool_identifier = 1, pool_pressure = 0.5,
       has_reset = True\<rparr>
      \<lparr>opt_config =
         \<lparr>enableGestureCaching = True, enableMemoryPooling = True, enableLazyLoading = True,
          enableBatchProcessing = True, maxCacheSize = 1000, memoryPoolSize = 2, batchSize = 10,
          optimizationThreshold = 0.8\<rparr>,
       gestureCache = ([] :: (string \<times> nat CacheEntry) list),
       memoryPool = [createPooledObject, createPooledObject]\<rparr>
    = \<lparr>opt_config =
         \<lparr>enableGestureCaching = True, enableMemoryPooling = True, enableLazyLoading = True,
          enableBatchProcessing = True, maxCacheSize = 1000, memoryPoolSize = 2, batchSize = 10,
          optimizationThreshold = 0.8\<rparr>,
       gestureCache = [],
       memoryPool = [createPooledObject, createPooledObject]\<rparr> \<and>
   memoryPool (returnPooledObject
      \<lparr>pool_x = 3, pool_y = 4, pool_timestamp = 5, pool_identifier = 1, pool_pressure = 0.5,
       has_reset = True\<rparr>
      \<lparr>opt_config =
         \<lparr>enableGestureCaching = True, enableMemoryPooling = True, enableLazyLoading = True,
          enableBatchProcessing = True, maxCacheSize = 1000, memoryPoolSize = 2, batchSize = 10,
          optimizationThreshold = 0.8\<rparr>,
       gestureCache = ([] :: (string \<times> nat CacheEntry) list),
       memoryPool = [createPooledObject]\<rparr>)
    = [createPooledObject,
       \<lparr>pool_x = 0, pool_y = 0, pool_timestamp = 0, pool_identifier = 0, pool_pressure = 0,
        has_reset = True\<rparr>] \<and>
   returnPooledObject
      \<lparr>pool_x = 3, pool_y = 4, pool_timestamp = 5, pool_identifier = 1, pool_pressure = 0.5,
       has_reset = True\<rparr>
      \<lparr>opt_config =
         \<lparr>enableGestureCaching = True, enableMemoryPooling = False, enableLazyLoading = True,
          enableBatchProcessing = True, maxCacheSize = 1000, memoryPoolSize = 2, batchSize = 10,
          optimizationThreshold = 0.8\<rparr>,
       gestureCache = ([] :: (string \<times> nat CacheEntry) list),
       memoryPool = []\<rparr>
    = \<lparr>opt_config =
         \<lparr>enableGestureCaching = True, enableMemoryPooling = False, enableLazyLoading = True,
          enableBatchProcessing = True, maxCacheSize = 1000, memoryPoolSize = 2, batchSize = 10,
          optimizationThreshold = 0.8\<rparr>,
       gestureCache = [],
       memoryPool = []\<rparr>"
  using pool_bounded [where cfg = "\<lparr>enableGestureCaching = True, enableMemoryPooling = True, enableLazyLoading = True,
         enableBatchProcessing = True, maxCacheSize = 1000, memoryPoolSize = 2, batchSize = 10,
         optimizationThreshold = 0.8\<rparr>"
      and cs = "[ReturnPooled \<lparr>pool_x = 3, pool_y = 4, pool_timestamp = 5, pool_identifier = 1,
                     pool_pressure = 0.5, has_reset = True\<rparr>,
       GetPooled,
       ReturnPooled \<lparr>pool_x = 3, pool_y = 4, pool_timestamp = 5, pool_identifier = 1,
                     pool_pressure = 0.5, has_reset = True\<rparr>,
       ReturnPooled \<lparr>pool_x = 6, pool_y = 7, pool_timestamp = 8, pool_identifier = 2,
                     pool_pressure = 0.5, has_reset = True\<rparr>]"
      and obj = "\<lparr>pool_x = 3, pool_y = 4, pool_timestamp = 5, pool_identifier = 1, pool_pressure = 0.5,
       has_reset = True\<rparr>"
      and opt = "\<lparr>opt_config =
         \<lparr>enableGestureCaching = True, enableMemoryPooling = True, enableLazyLoading = True,
          enableBatchProcessing = True, maxCacheSize = 1000, memoryPoolSize = 2, batchSize = 10,
          optimizationThreshold = 0.8\<rparr>,
       gestureCache = ([] :: (string \<times> nat CacheEntry) list),
       memoryPool = [createPooledObject, createPooledObject]\<rparr>"]
    pool_bounded [where obj = "\<lparr>pool_x = 3, pool_y = 4, pool_timestamp = 5, pool_identifier = 1, pool_pressure = 0.5,
       has_reset = True\<rparr>"
      and opt = "\<lparr>opt_config =
         \<lparr>enableGestureCaching = True, enableMemoryPooling = True, enableLazyLoading = True,
          enableBatchProcessing = True, maxCacheSize = 1000, memoryPoolSize = 2, batchSize = 10,
          optimizationThreshold = 0.8\<rparr>,
       gestureCache = ([] :: (string \<times> nat CacheEntry) list),
       memoryPool = [createPooledObject]\<rparr>"]
    pool_bounded [where obj = "\<lparr>pool_x = 3, pool_y = 4, pool_timestamp = 5, pool_identifier = 1, pool_pressure = 0.5,
       has_reset = True\<rparr>"
      and opt = "\<lparr>opt_config =
         \<lparr>enableGestureCaching = True, enableMemoryPooling = False, enableLazyLoading = True,
          enableBatchProcessing = True, maxCacheSize = 1000, memoryPoolSize = 2, batchSize = 10,
          optimizationThreshold = 0.8\<rparr>,
       gestureCache = ([] :: (string \<times> nat CacheEntry) list),
       memoryPool = []\<rparr>"]
  by (simp add: resetPooledObject_def newPerformanceOptimizer_def initializeMemoryPool_def
      returnPooledObject_def getPooledObject_def createPooledObject_def)

section \<open>The result cache\<close>

lemma update_fresh: "k \<notin> fst ` set al \<Longrightarrow> AList.update k v al = al @ [(k, v)]"
  by (induction al) auto

text \<open>The keys of the cache are distinct: it is empty at first, and every call keeps them so.\<close>

lemma cache_keys_new: "gestureCache (newPerformanceOptimizer cfg) = []"
  by (simp add: newPerformanceOptimizer_def initializeMemoryPool_def)

lemma cache_keys_cacheGestureResult:
  assumes "distinct (map fst (gestureCache opt))"
  shows "distinct (map fst (gestureCache (cacheGestureResult k result now opt)))"
  using assms
  by (simp add: cacheGestureResult_def evictOldestCacheEntry_def Let_def distinct_update
      distinct_delete split: option.splits)

lemma cache_keys_getCachedGestureResult:
  assumes "distinct (map fst (gestureCache opt))"
  shows "distinct (map fst (gestureCache (snd (getCachedGestureResult k opt))))"
  using assms
  by (simp add: getCachedGestureResult_def distinct_update split: option.splits)

lemma delete_middle:
  assumes "distinct (map fst (pre @ (k, e) # post))"
  shows "AList.delete k (pre @ (k, e) # post) = pre @ post"
proof -
  from assms have "k \<notin> fst ` set pre" and "k \<notin> fst ` set post" by auto
  then show ?thesis by (induction pre) auto
qed

lemma oldestScan_append: "oldestScan acc (xs @ ys) = oldestScan (oldestScan acc xs) ys"
proof (induction xs arbitrary: acc)
  case Nil
  show ?case by simp
next
  case (Cons p xs)
  obtain k e where p: "p = (k, e)" by (cases p)
  obtain oe ok where acc: "acc = (oe, ok)" by (cases acc)
  show ?case by (simp add: p acc Cons.IH)
qed

lemma oldestScan_keep:
  "\<forall>p \<in> set es. entry_timestamp e \<le> entry_timestamp (snd p)
   \<Longrightarrow> oldestScan (Some e, Some k) es = (Some e, Some k)"
  by (induction es) auto

lemma oldestScan_before:
  assumes "\<forall>p \<in> set pre. entry_timestamp e < entry_timestamp (snd p)"
    and "\<forall>oldest. oe = Some oldest \<longrightarrow> entry_timestamp e < entry_timestamp oldest"
  shows "\<forall>oldest. fst (oldestScan (oe, ok) pre) = Some oldest
           \<longrightarrow> entry_timestamp e < entry_timestamp oldest"
  using assms
proof (induction pre arbitrary: oe ok)
  case Nil
  then show ?case by simp
next
  case (Cons p pre)
  obtain k1 e1 where p: "p = (k1, e1)" by (cases p)
  let ?next = "case oe of None \<Rightarrow> (Some e1, Some k1)
               | Some oldest \<Rightarrow>
                   if entry_timestamp e1 < entry_timestamp oldest then (Some e1, Some k1)
                   else (oe, ok)"
  obtain oe' ok' where n: "?next = (oe', ok')" by (cases ?next)
  from Cons.prems p have e1: "entry_timestamp e < entry_timestamp e1"
    and pre: "\<forall>p \<in> set pre. entry_timestamp e < entry_timestamp (snd p)"
    by simp_all
  from n e1 Cons.prems(2)
  have "\<forall>oldest. oe' = Some oldest \<longrightarrow> entry_timestamp e < entry_timestamp oldest"
    by (auto split: option.splits if_splits)
  from Cons.IH [OF pre this, of ok'] n show ?case by (simp add: p)
qed

text \<open>
  The scan finds the first entry, in insertion order, among those of minimal timestamp:
  the entry before which every timestamp is larger and after which none is smaller.
\<close>

lemma oldestScan_first_oldest:
  assumes "\<forall>p \<in> set pre. entry_timestamp e < entry_timestamp (snd p)"
    and "\<forall>p \<in> set post. entry_timestamp e \<le> entry_timestamp (snd p)"
  shows "oldestScan (None, None) (pre @ (victim, e) # post) = (Some e, Some victim)"
proof -
  obtain oe ok where s: "oldestScan (None, None) pre = (oe, ok)"
    by (cases "oldestScan (None, None) pre")
  from oldestScan_before [OF assms(1), of None None] s
  have "\<forall>oldest. oe = Some oldest \<longrightarrow> entry_timestamp e < entry_timestamp oldest"
    by simp
  then have "oldestScan (oe, ok) ((victim, e) # post) = oldestScan (Some e, Some victim) post"
    by (cases oe) simp_all
  with s oldestScan_keep [OF assms(2), of victim] show ?thesis
    by (simp add: oldestScan_append)
qed

text \<open>Every cache that is not empty has such an entry.\<close>

lemma first_oldest_exists:
  fixes cache :: "(string \<times> 'a CacheEntry) list"
  assumes "cache \<noteq> []"
  shows "\<exists>pre victim e post. cache = pre @ (victim, e) # post \<and>
           (\<forall>p \<in> set pre. entry_timestamp e < entry_timestamp (snd p)) \<and>
           (\<forall>p \<in> set post. entry_timestamp e \<le> entry_timestamp (snd p))"
  using assms
proof (induction cache)
  case Nil
  then show ?case by simp
next
  case (Cons q cache)
  obtain k0 e0 where q: "q = (k0, e0)" by (cases q)
  show ?case
  proof (cases "\<forall>p \<in> set cache. entry_timestamp e0 \<le> entry_timestamp (snd p)")
    case True
    then have "q # cache = [] @ (k0, e0) # cache \<and>
           (\<forall>p \<in> set []. entry_timestamp e0 < entry_timestamp (snd p)) \<and>
           (\<forall>p \<in> set cache. entry_timestamp e0 \<le> entry_timestamp (snd p))"
      by (simp add: q)
    then show ?thesis by blast
  next
    case False
    then have "cache \<noteq> []" by auto
    from Cons.IH [OF this] obtain pre victim e post where d: "cache = pre @ (victim, e) # post"
      "\<forall>p \<in> set pre. entry_timestamp e < entry_timestamp (snd p)"
      "\<forall>p \<in> set post. entry_timestamp e \<le> entry_timestamp (snd p)"
      by blast
    from False obtain p where "p \<in> set cache" "entry_timestamp (snd p) < entry_timestamp e0"
      by force
    with d have "entry_timestamp e < entry_timestamp e0" by force
    with d have "q # cache = (q # pre) @ (victim, e) # post \<and>
           (\<forall>p \<in> set (q # pre). entry_timestamp e < entry_timestamp (snd p)) \<and>
           (\<forall>p \<in> set post. entry_timestamp e \<le> entry_timestamp (snd p))"
      by (simp add: q)
    then show ?thesis by blast
  qed
qed

text \<open>
  A full cache of two entries and an insertion under a key that is already cached, and
  is not the oldest: the oldest entry is evicted, the entry of the key is overwritten,
  and one entry is left.
\<close>

theorem cache_overwrite_counterexample:
  "real (length (gestureCache
      \<lparr>opt_config =
         \<lparr>enableGestureCaching = True, enableMemoryPooling = True, enableLazyLoading = True,
          enableBatchProcessing = True, maxCacheSize = 2, memoryPoolSize = 0, batchSize = 10,
          optimizationThreshold = 0.8\<rparr>,
       gestureCache =
         [(''tap_a'', \<lparr>key = ''tap_a'', data = TAP, entry_timestamp = 1, accessCount = 0\<rparr>),
          (''pan_b'', \<lparr>key = ''pan_b'', data = PAN, entry_timestamp = 2, accessCount = 0\<rparr>)],
       memoryPool = []\<rparr>)) = 2 \<and>
   gestureCache (cacheGestureResult ''pan_b'' PAN 3
      \<lparr>opt_config =
         \<lparr>enableGestureCaching = True, enableMemoryPooling = True, enableLazyLoading = True,
          enableBatchProcessing = True, maxCacheSize = 2, memoryPoolSize = 0, batchSize = 10,
          optimizationThreshold = 0.8\<rparr>,
       gestureCache =
         [(''tap_a'', \<lparr>key = ''tap_a'', data = TAP, entry_timestamp = 1, accessCount = 0\<rparr>),
          (''pan_b'', \<lparr>key = ''pan_b'', data = PAN, entry_timestamp = 2, accessCount = 0\<rparr>)],
       memoryPool = []\<rparr>)
   = [(''pan_b'', \<lparr>key = ''pan_b'', data = PAN, entry_timestamp = 3, accessCount = 0\<rparr>)]"
  by (simp add: cacheGestureResult_def evictOldestCacheEntry_def Let_def)

text \<open>
  The test \<^verbatim>\<open>if (oldestKey)\<close> at work: the oldest entry of a full cache is cached under
  the empty string, nothing is evicted, and the cache holds three entries.
\<close>

lemma cache_empty_key_kept:
  "gestureCache (cacheGestureResult ''tap_c'' TAP 3
      \<lparr>opt_config =
         \<lparr>enableGestureCaching = True, enableMemoryPooling = True, enableLazyLoading = True,
          enableBatchProcessing = True, maxCacheSize = 2, memoryPoolSize = 0, batchSize = 10,
          optimizationThreshold = 0.8\<rparr>,
       gestureCache =
         [('''', \<lparr>key = '''', data = TAP, entry_timestamp = 1, accessCount = 0\<rparr>),
          (''pan_b'', \<lparr>key = ''pan_b'', data = PAN, entry_timestamp = 2, accessCount = 0\<rparr>)],
       memoryPool = []\<rparr>)
   = [('''', \<lparr>key = '''', data = TAP, entry_timestamp = 1, accessCount = 0\<rparr>),
      (''pan_b'', \<lparr>key = ''pan_b'', data = PAN, entry_timestamp = 2, accessCount = 0\<rparr>),
      (''tap_c'', \<lparr>key = ''tap_c'', data = TAP, entry_timestamp = 3, accessCount = 0\<rparr>)]"
  by (simp add: cacheGestureResult_def evictOldestCacheEntry_def Let_def)

text \<open>
  C5, amended. When \<^verbatim>\<open>cacheGestureResult\<close> is called with caching enabled and a key
  that is not yet cached, while the cache holds \<open>maxCacheSize\<close> entries, exactly one entry
  is evicted before the new entry is appended: the entry of oldest timestamp, and the
  first one in insertion order when several entries have that timestamp, provided its
  key is not the empty string. The entries before it (\<open>pre\<close>, all of them newer) and
  after it (\<open>post\<close>, none of them older) are kept, in their order; the access counts and
  the data of the entries play no part, the conditions being on keys and timestamps
  only; and the size of the cache stays at \<open>maxCacheSize\<close>. The keys of the cache, a
  \<^verbatim>\<open>Map\<close>, are distinct.
\<close>

theorem cache_insert_evicts_oldest:
  fixes opt :: "'a PerformanceOptimizer"
  assumes "enableGestureCaching (opt_config opt)"
    and "real (length (gestureCache opt)) = maxCacheSize (opt_config opt)"
    and "distinct (map fst (gestureCache opt))"
    and "k \<notin> fst ` set (gestureCache opt)"
    and "gestureCache opt = pre @ (victim, e) # post"
    and "\<forall>p \<in> set pre. entry_timestamp e < entry_timestamp (snd p)"
    and "\<forall>p \<in> set post. entry_timestamp e \<le> entry_timestamp (snd p)"
    and "victim \<noteq> []"
  shows "gestureCache (cacheGestureResult k result now opt) =
           pre @ post
             @ [(k, \<lparr>key = k, data = result, entry_timestamp = now, accessCount = 0\<rparr>)] \<and>
         real (length (gestureCache (cacheGestureResult k result now opt)))
           = maxCacheSize (opt_config opt) \<and>
         opt_config (cacheGestureResult k result now opt) = opt_config opt"
proof -
  have scan: "oldestScan (None, None) (gestureCache opt) = (Some e, Some victim)"
    unfolding assms(5) by (rule oldestScan_first_oldest [OF assms(6,7)])
  have del: "AList.delete victim (gestureCache opt) = pre @ post"
    using assms(3) unfolding assms(5) by (rule delete_middle)
  have evict: "evictOldestCacheEntry opt = opt\<lparr>gestureCache := pre @ post\<rparr>"
    using scan assms(8) del by (simp add: evictOldestCacheEntry_def)
  from assms(4) have fresh: "k \<notin> fst ` set (pre @ post)"
    unfolding assms(5) by auto
  have res: "gestureCache (cacheGestureResult k result now opt) =
           pre @ post
             @ [(k, \<lparr>key = k, data = result, entry_timestamp = now, accessCount = 0\<rparr>)]"
    using assms(1,2) update_fresh [OF fresh]
    by (simp add: cacheGestureResult_def evict)
  have len: "length (pre @ post
             @ [(k, \<lparr>key = k, data = result, entry_timestamp = now, accessCount = 0\<rparr>)])
           = length (gestureCache opt)"
    unfolding assms(5) by simp
  have cfg: "opt_config (cacheGestureResult k result now opt) = opt_config opt"
    using assms(1,2) by (simp add: cacheGestureResult_def evict)
  from res len assms(2) cfg show ?thesis by simp
qed

theorem cache_insert_evicts_oldest_witness:
  "enableGestureCaching (opt_config
      \<lparr>opt_config =
         \<lparr>enableGestureCaching = True, enableMemoryPooling = True, enableLazyLoading = True,
          enableBatchProcessing = True, maxCacheSize = 4, memoryPoolSize = 0, batchSize = 10,
          optimizationThreshold = 0.8\<rparr>,
       gestureCache =
         [(''tap_a'', \<lparr>key = ''tap_a'', data = TAP, entry_timestamp = 5, accessCount = 0\<rparr>),
          (''pan_b'', \<lparr>key = ''pan_b'', data = PAN, entry_timestamp = 3, accessCount = 7\<rparr>),
          (''tap_c'', \<lparr>key = ''tap_c'', data = TAP, entry_timestamp = 3, accessCount = 2\<rparr>),
          (''pan_d'', \<lparr>key = ''pan_d'', data = PAN, entry_timestamp = 7, accessCount = 1\<rparr>)],
       memoryPool = []\<rparr>) \<and>
   real (length
     [(''tap_a'', \<lparr>key = ''tap_a'', data = TAP, entry_timestamp = 5, accessCount = 0\<rparr>),
      (''pan_b'', \<lparr>key = ''pan_b'', data = PAN, entry_timestamp = 3, accessCount = 7\<rparr>),
      (''tap_c'', \<lparr>key = ''tap_c'', data = TAP, entry_timestamp = 3, accessCount = 2\<rparr>),
      (''pan_d'', \<lparr>key = ''pan_d'', data = PAN, entry_timestamp = 7, accessCount = 1\<rparr>)]) = 4 \<and>
   distinct (map fst
     [(''tap_a'', \<lparr>key = ''tap_a'', data = TAP, entry_timestamp = 5, accessCount = 0\<rparr>),
      (''pan_b'', \<lparr>key = ''pan_b'', data = PAN, entry_timestamp = 3, accessCount = 7\<rparr>),
      (''tap_c'', \<lparr>key = ''tap_c'', data = TAP, entry_timestamp = 3, accessCount = 2\<rparr>),
      (''pan_d'', \<lparr>key = ''pan_d'', data = PAN, entry_timestamp = 7, accessCount = 1\<rparr>)]) \<and>
   ''rotate_e'' \<notin> fst ` set
     [(''tap_a'', \<lparr>key = ''tap_a'', data = TAP, entry_timestamp = 5, accessCount = 0\<rparr>),
      (''pan_b'', \<lparr>key = ''pan_b'', data = PAN, entry_timestamp = 3, accessCount = 7\<rparr>),
      (''tap_c'', \<lparr>key = ''tap_c'', data = TAP, entry_timestamp = 3, accessCount = 2\<rparr>),
      (''pan_d'', \<lparr>key = ''pan_d'', data = PAN, entry_timestamp = 7, accessCount = 1\<rparr>)] \<and>
   (3 :: real) < 5 \<and> (3 :: real) \<le> 3 \<and> (3 :: real) \<le> 7 \<and> ''pan_b'' \<noteq> [] \<and>
   gestureCache (cacheGestureResult ''rotate_e'' ROTATE 10
      \<lparr>opt_config =
         \<lparr>enableGestureCaching = True, enableMemoryPooling = True, enableLazyLoading = True,
          enableBatchProcessing = True, maxCacheSize = 4, memoryPoolSize = 0, batchSize = 10,
          optimizationThreshold = 0.8\<rparr>,
       gestureCache =
         [(''tap_a'', \<lparr>key = ''tap_a'', data = TAP, entry_timestamp = 5, accessCount = 0\<rparr>),
          (''pan_b'', \<lparr>key = ''pan_b'', data = PAN, entry_timestamp = 3, accessCount = 7\<rparr>),
          (''tap_c'', \<lparr>key = ''tap_c'', data = TAP, entry_timestamp = 3, accessCount = 2\<rparr>),
          (''pan_d'', \<lparr>key = ''pan_d'', data = PAN, entry_timestamp = 7, accessCount = 1\<rparr>)],
       memoryPool = []\<rparr>)
   = [(''tap_a'', \<lparr>key = ''tap_a'', data = TAP, entry_timestamp = 5, accessCount = 0\<rparr>),
      (''tap_c'', \<lparr>key = ''tap_c'', data = TAP, entry_timestamp = 3, accessCount = 2\<rparr>),
      (''pan_d'', \<lparr>key = ''pan_d'', data = PAN, entry_timestamp = 7, accessCount = 1\<rparr>),
      (''rotate_e'', \<lparr>key = ''rotate_e'', data = ROTATE, entry_timestamp = 10, accessCount = 0\<rparr>)]"
  using cache_insert_evicts_oldest [where
      opt = "\<lparr>opt_config =
         \<lparr>enableGestureCaching = True, enableMemoryPooling = True, enableLazyLoading = True,
          enableBatchProcessing = True, maxCacheSize = 4, memoryPoolSize = 0, batchSize = 10,
          optimizationThreshold = 0.8\<rparr>,
       gestureCache =
         [(''tap_a'', \<lparr>key = ''tap_a'', data = TAP, entry_timestamp = 5, accessCount = 0\<rparr>),
          (''pan_b'', \<lparr>key = ''pan_b'', data = PAN, entry_timestamp = 3, accessCount = 7\<rparr>),
          (''tap_c'', \<lparr>key = ''tap_c'', data = TAP, entry_timestamp = 3, accessCount = 2\<rparr>),
          (''pan_d'', \<lparr>key = ''pan_d'', data = PAN, entry_timestamp = 7, accessCount = 1\<rparr>)],
       memoryPool = []\<rparr>"
      and k = "''rotate_e''" and result = ROTATE and now = 10
      and pre = "[(''tap_a'', \<lparr>key = ''tap_a'', data = TAP, entry_timestamp = 5, accessCount = 0\<rparr>)]"
      and victim = "''pan_b''"
      and e = "\<lparr>key = ''pan_b'', data = PAN, entry_timestamp = 3, accessCount = 7\<rparr>"
      and post = "[(''tap_c'', \<lparr>key = ''tap_c'', data = TAP, entry_timestamp = 3, accessCount = 2\<rparr>),
                   (''pan_d'', \<lparr>key = ''pan_d'', data = PAN, entry_timestamp = 7, accessCount = 1\<rparr>)]"]
  by simp

section \<open>Dispatch to the listeners\<close>












end
